theory Spec2Isabelle
  imports Complex_Main
begin

section \<open>Python values, errors and loops\<close>

text \<open>
  Python floats are modelled as exact reals: rounding is not modelled, and the non-finite
  values appear only where the code can produce and compare them (\<open>pyfloat\<close>).
  Every exception the embedded code can raise is a constructor of \<open>error\<close>.
\<close>

datatype error =
    ZeroDivisionError
  | KeyError int
  | KeyErrorStr string
  | IndexError
  | UnboundLocalError
  | ValueError
  | StepFailure string

datatype pyfloat = Finite real | PosInf | NegInf | NaN

text \<open>\<open>for i in range(...)\<close> with a body that may raise: the first exception ends the loop.\<close>

fun for_range :: "(nat \<Rightarrow> 's \<Rightarrow> error + 's) \<Rightarrow> nat list \<Rightarrow> 's \<Rightarrow> error + 's" where
  "for_range body [] s = Inr s"
| "for_range body (i # rest) s =
     (case body i s of Inl e \<Rightarrow> Inl e | Inr s' \<Rightarrow> for_range body rest s')"

section \<open>Random number generators as explicit state\<close>

text \<open>
  The module-level generators of \<open>random\<close> and \<open>numpy.random\<close> become one explicit state:
  the stream of results of \<open>random.random()\<close> (each in [0, 1)), the stream of raw draws
  behind \<open>random.choice\<close>, the stream of standard normal draws behind
  \<open>np.random.normal\<close>, and how far each has been consumed.
\<close>

record rng =
  uniforms :: "nat \<Rightarrow> real"
  u_pos :: nat
  choices :: "nat \<Rightarrow> nat"
  c_pos :: nat
  normals :: "nat \<Rightarrow> real"
  n_pos :: nat

definition random_random :: "rng \<Rightarrow> real \<times> rng" where
  "random_random g = (uniforms g (u_pos g), g\<lparr>u_pos := Suc (u_pos g)\<rparr>)"

definition random_uniform :: "real \<Rightarrow> real \<Rightarrow> rng \<Rightarrow> real \<times> rng" where
  "random_uniform a b g = (case random_random g of (u, g') \<Rightarrow> (a + (b - a) * u, g'))"

definition random_choice :: "'a list \<Rightarrow> rng \<Rightarrow> error + ('a \<times> rng)" where
  "random_choice xs g =
     (if xs = [] then Inl IndexError
      else Inr (xs ! (choices g (c_pos g) mod length xs), g\<lparr>c_pos := Suc (c_pos g)\<rparr>))"

text \<open>
  \<open>np.random.normal(loc, scale)\<close> raises \<open>ValueError\<close> for a negative scale and is otherwise
  \<open>loc + scale * z\<close> for one standard normal draw \<open>z\<close>.
\<close>

definition standard_normal :: "rng \<Rightarrow> real \<times> rng" where
  "standard_normal g = (normals g (n_pos g), g\<lparr>n_pos := Suc (n_pos g)\<rparr>)"

definition np_random_normal :: "real \<Rightarrow> real \<Rightarrow> rng \<Rightarrow> error + real \<times> rng" where
  "np_random_normal loc scale g =
     (if scale < 0 then Inl ValueError
      else (case standard_normal g of (z, g') \<Rightarrow> Inr (loc + scale * z, g')))"

section \<open>Timing unit engine (generate\_morse\_training\_data\_v3.py)\<close>

definition DIT_UNITS :: real where "DIT_UNITS = 1"
definition DAH_UNITS :: real where "DAH_UNITS = 3"
definition ELEMENT_GAP :: real where "ELEMENT_GAP = 1"
definition LETTER_GAP :: real where "LETTER_GAP = 3"
definition WORD_GAP :: real where "WORD_GAP = 7"

definition JITTER_SIGMA :: real where "JITTER_SIGMA = 0.08"
definition WPM_MIN :: real where "WPM_MIN = 10"
definition WPM_MAX :: real where "WPM_MAX = 40"

definition wpm_to_dit_duration :: "real \<Rightarrow> error + real" where
  "wpm_to_dit_duration wpm = (if wpm = 0 then Inl ZeroDivisionError else Inr (1.2 / wpm))"

definition dit_to_milliseconds :: "real \<Rightarrow> real \<Rightarrow> error + real" where
  "dit_to_milliseconds dit_units wpm =
     (case wpm_to_dit_duration wpm of
        Inl e \<Rightarrow> Inl e
      | Inr dit_duration_sec \<Rightarrow> Inr (dit_units * dit_duration_sec * 1000))"

definition apply_human_jitter :: "real \<Rightarrow> real \<Rightarrow> rng \<Rightarrow> error + real \<times> rng" where
  "apply_human_jitter duration sigma g =
     (case np_random_normal 1.0 sigma g of
        Inl e \<Rightarrow> Inl e
      | Inr (sample, g') \<Rightarrow> Inr (max (duration * sample) 1.0, g'))"

section \<open>Element stream generator, version 3\<close>

text \<open>One row of the generated table: \<open>[duration_ms, is_key_down, label]\<close>.\<close>

record timing_element =
  duration_ms :: real
  is_key_down :: int
  label :: int

text \<open>
  The local variables of a generator that live across loop iterations. \<open>current_wpm\<close>
  is unbound until the first resampling. The module constant \<open>JITTER_SIGMA\<close> that both
  generators pass to \<open>apply_human_jitter\<close> is the parameter \<open>sigma\<close>.
\<close>

record gen_state =
  current_wpm :: "real option"
  data :: "timing_element list"
  rand :: rng

text \<open>
  The first statement of both loop bodies: \<open>if i % period == 0: current_wpm =
  random.uniform(wpm_range[0], wpm_range[1])\<close>, with period 100 (samples) in Policy A and
  50 (characters) in Policy B.
\<close>

definition resample_wpm :: "nat \<Rightarrow> nat \<Rightarrow> real \<times> real \<Rightarrow> gen_state \<Rightarrow> gen_state" where
  "resample_wpm period i wpm_range st =
     (if i mod period = 0
      then (case random_uniform (fst wpm_range) (snd wpm_range) (rand st) of
              (w, g) \<Rightarrow> st\<lparr>current_wpm := Some w, rand := g\<rparr>)
      else st)"

text \<open>
  The three lines the generators repeat for every row: \<open>dit_to_milliseconds\<close> on the
  current speed, \<open>apply_human_jitter\<close>, \<open>data.append\<close>.
\<close>

definition emit :: "real \<Rightarrow> int \<Rightarrow> int \<Rightarrow> real \<Rightarrow> gen_state \<Rightarrow> error + gen_state" where
  "emit timing_units key lab sigma st =
     (case current_wpm st of
        None \<Rightarrow> Inl UnboundLocalError
      | Some wpm \<Rightarrow>
          (case dit_to_milliseconds timing_units wpm of
             Inl e \<Rightarrow> Inl e
           | Inr d \<Rightarrow>
               (case apply_human_jitter d sigma (rand st) of
                  Inl e \<Rightarrow> Inl e
                | Inr (d', g) \<Rightarrow>
                    Inr (st\<lparr>data := data st @
                                [\<lparr>duration_ms = d', is_key_down = key, label = lab\<rparr>],
                            rand := g\<rparr>))))"

text \<open>Before the loop: \<open>data = []\<close>, and \<open>current_wpm\<close> not yet assigned.\<close>

definition start_state :: "rng \<Rightarrow> gen_state" where
  "start_state g = \<lparr>current_wpm = None, data = [], rand = g\<rparr>"

subsection \<open>Policy A: generate\_morse\_dataset\_v3\<close>

text \<open>
  Lines 116 to 141: the element kind chosen by one uniform draw, as timing units, key state
  and label. Lines 109 to 149 are the loop body, lines 103 to 154 the function.
\<close>

definition choose_element :: "real \<Rightarrow> real \<times> int \<times> int" where
  "choose_element choice =
     (if choice < 0.20 then (DIT_UNITS, 1, 0)
      else if choice < 0.35 then (DAH_UNITS, 1, 1)
      else if choice < 0.55 then (ELEMENT_GAP, 0, 2)
      else if choice < 0.80 then (LETTER_GAP, 0, 3)
      else (WORD_GAP, 0, 4))"

definition dataset_body :: "real \<times> real \<Rightarrow> real \<Rightarrow> nat \<Rightarrow> gen_state \<Rightarrow> error + gen_state" where
  "dataset_body wpm_range sigma i st0 =
     (let st1 = resample_wpm 100 i wpm_range st0 in
      case random_random (rand st1) of
        (choice, g) \<Rightarrow>
          (case choose_element choice of
             (timing_units, key, lab) \<Rightarrow> emit timing_units key lab sigma (st1\<lparr>rand := g\<rparr>)))"

definition generate_morse_dataset_v3 ::
  "nat \<Rightarrow> real \<times> real \<Rightarrow> real \<Rightarrow> rng \<Rightarrow> error + timing_element list" where
  "generate_morse_dataset_v3 num_samples wpm_range sigma g =
     map_sum id data
       (for_range (dataset_body wpm_range sigma) [0..<num_samples] (start_state g))"

subsection \<open>Policy B: generate\_sequence\_based\_data\_v3\<close>

definition morse_code :: "(string \<times> string) list" where
  "morse_code =
     [(''A'', ''.-''),    (''B'', ''-...''),  (''C'', ''-.-.''),  (''D'', ''-..''),   (''E'', ''.''),
      (''F'', ''..-.''),  (''G'', ''--.''),   (''H'', ''....''),  (''I'', ''..''),    (''J'', ''.---''),
      (''K'', ''-.-''),   (''L'', ''.-..''),  (''M'', ''--''),    (''N'', ''-.''),    (''O'', ''---''),
      (''P'', ''.--.''),  (''Q'', ''--.-''),  (''R'', ''.-.''),   (''S'', ''...''),   (''T'', ''-''),
      (''U'', ''..-''),   (''V'', ''...-''),  (''W'', ''.--''),   (''X'', ''-..-''),  (''Y'', ''-.--''),
      (''Z'', ''--..''),  (''0'', ''-----''), (''1'', ''.----''), (''2'', ''..---''), (''3'', ''...--''),
      (''4'', ''....-''), (''5'', ''.....''), (''6'', ''-....''), (''7'', ''--...''), (''8'', ''---..''),
      (''9'', ''----.'')]"

text \<open>
  The table \<open>morse_code\<close> in the order of its keys, the order \<open>list(morse_code.keys())\<close>
  has. Lines 194 to 212: the loop \<open>for j, symbol in enumerate(pattern)\<close>, where \<open>len\<close> is
  \<open>len(pattern)\<close>; any symbol other than a dot is keyed as a Dah. Lines 215 to 224: the
  terminal gap. Lines 184 to 224 are the loop body.
\<close>

fun emit_pattern :: "real \<Rightarrow> nat \<Rightarrow> (nat \<times> char) list \<Rightarrow> gen_state \<Rightarrow> error + gen_state" where
  "emit_pattern sigma len [] st = Inr st"
| "emit_pattern sigma len ((j, symbol) # rest) st =
     (case (if symbol = CHR ''.'' then emit DIT_UNITS 1 0 sigma st
            else emit DAH_UNITS 1 1 sigma st) of
        Inl e \<Rightarrow> Inl e
      | Inr st1 \<Rightarrow>
          (if int j < int len - 1
           then (case emit ELEMENT_GAP 0 2 sigma st1 of
                   Inl e \<Rightarrow> Inl e
                 | Inr st2 \<Rightarrow> emit_pattern sigma len rest st2)
           else emit_pattern sigma len rest st1))"

definition emit_terminal_gap :: "real \<Rightarrow> gen_state \<Rightarrow> error + gen_state" where
  "emit_terminal_gap sigma st =
     (case random_random (rand st) of
        (u, g) \<Rightarrow>
          (if u < 0.25 then emit WORD_GAP 0 4 sigma (st\<lparr>rand := g\<rparr>)
           else emit LETTER_GAP 0 3 sigma (st\<lparr>rand := g\<rparr>)))"

definition sequence_body :: "real \<times> real \<Rightarrow> real \<Rightarrow> nat \<Rightarrow> gen_state \<Rightarrow> error + gen_state" where
  "sequence_body wpm_range sigma i st0 =
     (let st1 = resample_wpm 50 i wpm_range st0 in
      case random_choice (map fst morse_code) (rand st1) of
        Inl e \<Rightarrow> Inl e
      | Inr (char, g) \<Rightarrow>
          (case map_of morse_code char of
             None \<Rightarrow> Inl (KeyErrorStr char)
           | Some pattern \<Rightarrow>
               (case emit_pattern sigma (length pattern) (enumerate 0 pattern)
                       (st1\<lparr>rand := g\<rparr>) of
                  Inl e \<Rightarrow> Inl e
                | Inr st2 \<Rightarrow> emit_terminal_gap sigma st2)))"

definition generate_sequence_based_data_v3 ::
  "nat \<Rightarrow> real \<times> real \<Rightarrow> real \<Rightarrow> rng \<Rightarrow> error + timing_element list" where
  "generate_sequence_based_data_v3 num_characters wpm_range sigma g =
     map_sum id data
       (for_range (sequence_body wpm_range sigma) [0..<num_characters] (start_state g))"

section \<open>Element stream generator, version 2 (generate\_morse\_training\_data\_v2.py)\<close>

text \<open>
  Version 2 has no speed in words per minute: each row starts from \<open>base_dit_ms\<close>, and
  its \<open>jitter\<close> (lines 35 and 116) is the bare product with the Gaussian draw. The
  generator state is the table built so far and the random state. The Morse table is the
  same 36 entries. \<open>generate_morse_dataset_v2\<close> is lines 29 to 57,
  \<open>generate_sequence_based_data\<close> lines 108 to 134; writing the table to a file and the
  printed statistics are left out.
\<close>

text \<open>
  \<open>jitter = lambda x: x * np.random.normal(1.0, 0.08)\<close>. The scale is the literal 0.08, so
  the call cannot raise, and the sample is \<open>1.0 + 0.08 * z\<close> for the standard normal draw \<open>z\<close>.
\<close>

definition jitter :: "real \<Rightarrow> rng \<Rightarrow> real \<times> rng" where
  "jitter x g = (case standard_normal g of (z, g') \<Rightarrow> (x * (1.0 + 0.08 * z), g'))"

definition append_row ::
  "real \<Rightarrow> int \<Rightarrow> int \<Rightarrow> timing_element list \<times> rng \<Rightarrow> timing_element list \<times> rng" where
  "append_row x key lab st =
     (case jitter x (snd st) of
        (d, g) \<Rightarrow> (fst st @ [\<lparr>duration_ms = d, is_key_down = key, label = lab\<rparr>], g))"

definition dataset_body_v2 ::
  "real \<Rightarrow> nat \<Rightarrow> timing_element list \<times> rng \<Rightarrow> error + timing_element list \<times> rng" where
  "dataset_body_v2 base_dit_ms i st =
     (case random_uniform 0.8 1.2 (snd st) of
        (f, g1) \<Rightarrow>
          (let current_dit = base_dit_ms * f;
               current_dah = current_dit * 3
           in case random_random g1 of
                (choice, g2) \<Rightarrow>
                  Inr (if choice < 0.25 then append_row current_dit 1 0 (fst st, g2)
                       else if choice < 0.50 then append_row current_dah 1 1 (fst st, g2)
                       else if choice < 0.75 then append_row current_dit 0 2 (fst st, g2)
                       else append_row (current_dit * 7) 0 3 (fst st, g2))))"

definition generate_morse_dataset_v2 ::
  "nat \<Rightarrow> real \<Rightarrow> rng \<Rightarrow> error + timing_element list" where
  "generate_morse_dataset_v2 num_samples base_dit_ms g =
     map_sum id fst (for_range (dataset_body_v2 base_dit_ms) [0..<num_samples] ([], g))"

fun emit_pattern_v2 ::
  "real \<Rightarrow> real \<Rightarrow> nat \<Rightarrow> (nat \<times> char) list \<Rightarrow> timing_element list \<times> rng
     \<Rightarrow> timing_element list \<times> rng" where
  "emit_pattern_v2 current_dit current_dah len [] st = st"
| "emit_pattern_v2 current_dit current_dah len ((i, symbol) # rest) st =
     (let st1 = (if symbol = CHR ''.'' then append_row current_dit 1 0 st
                 else append_row current_dah 1 1 st)
      in if int i < int len - 1
         then emit_pattern_v2 current_dit current_dah len rest (append_row current_dit 0 2 st1)
         else emit_pattern_v2 current_dit current_dah len rest st1)"

text \<open>The last statement of the character loop: the gap that ends the character.\<close>

definition terminal_gap_v2 ::
  "real \<Rightarrow> timing_element list \<times> rng \<Rightarrow> timing_element list \<times> rng" where
  "terminal_gap_v2 current_dit st =
     (case random_random (snd st) of
        (u, g) \<Rightarrow>
          (if u < 0.3 then append_row (current_dit * 7) 0 3 (fst st, g)
           else append_row (current_dit * 3) 0 2 (fst st, g)))"

definition sequence_body_v2 ::
  "real \<Rightarrow> nat \<Rightarrow> timing_element list \<times> rng \<Rightarrow> error + timing_element list \<times> rng" where
  "sequence_body_v2 base_dit_ms n st =
     (case random_choice (map fst morse_code) (snd st) of
        Inl e \<Rightarrow> Inl e
      | Inr (char, g1) \<Rightarrow>
          (case map_of morse_code char of
             None \<Rightarrow> Inl (KeyErrorStr char)
           | Some pattern \<Rightarrow>
               (case random_uniform 0.8 1.2 g1 of
                  (f, g2) \<Rightarrow>
                    (let current_dit = base_dit_ms * f;
                         current_dah = current_dit * 3
                     in Inr (terminal_gap_v2 current_dit
                               (emit_pattern_v2 current_dit current_dah (length pattern)
                                  (enumerate 0 pattern) (fst st, g2)))))))"

definition generate_sequence_based_data ::
  "nat \<Rightarrow> real \<Rightarrow> rng \<Rightarrow> error + timing_element list" where
  "generate_sequence_based_data num_characters base_dit_ms g =
     map_sum id fst (for_range (sequence_body_v2 base_dit_ms) [0..<num_characters] ([], g))"

section \<open>Ratio validator (validate\_timing\_standards)\<close>

text \<open>
  Lines 256 to 265: \<open>results[label]\<close> holds mean, standard deviation and count of the rows
  of one label, for the labels 0 to 4, and only for a label that has rows. The pandas standard deviation divides by
  \<open>count - 1\<close> and is NaN for a single row. The means are numpy floats, so a division by
  zero gives an infinity or NaN and does not raise.
\<close>

record label_stats =
  mean :: real
  std :: pyfloat
  count :: nat

definition series_mean :: "real list \<Rightarrow> real" where
  "series_mean xs = sum_list xs / real (length xs)"

definition series_std :: "real list \<Rightarrow> pyfloat" where
  "series_std xs =
     (if length xs \<le> 1 then NaN
      else Finite (sqrt (sum_list (map (\<lambda>x. (x - series_mean xs)\<^sup>2) xs) / real (length xs - 1))))"

definition label_durations :: "timing_element list \<Rightarrow> int \<Rightarrow> real list" where
  "label_durations df l = map duration_ms (filter (\<lambda>e. label e = l) df)"

definition compute_results :: "timing_element list \<Rightarrow> int \<Rightarrow> label_stats option" where
  "compute_results df l =
     (if 0 \<le> l \<and> l < 5 \<and> length (label_durations df l) > 0
      then Some \<lparr>mean = series_mean (label_durations df l),
                 std = series_std (label_durations df l),
                 count = length (label_durations df l)\<rparr>
      else None)"

definition np_divide :: "real \<Rightarrow> real \<Rightarrow> pyfloat" where
  "np_divide a b =
     (if b \<noteq> 0 then Finite (a / b)
      else if a = 0 then NaN
      else if 0 < a then PosInf else NegInf)"

definition ratio_valid :: "pyfloat \<Rightarrow> real \<Rightarrow> real \<Rightarrow> bool" where
  "ratio_valid ratio expected tolerance =
     (case ratio of
        Finite r \<Rightarrow> \<bar>r - expected\<bar> / expected < tolerance
      | _ \<Rightarrow> False)"

text \<open>
  What the function computes: the dictionary it returns (\<open>results\<close>) and the three ratios
  and verdicts it prints. Reading \<open>results[0]\<close> (line 268), \<open>results[1]\<close>, \<open>results[3]\<close> and
  \<open>results[4]\<close> (lines 280 to 282) raises \<open>KeyError\<close> for a label without statistics; the
  loop that prints the means (lines 271 to 277) skips such a label.
\<close>

record validation_report =
  results :: "int \<Rightarrow> label_stats option"
  dah_ratio :: pyfloat
  letter_ratio :: pyfloat
  word_ratio :: pyfloat
  dah_valid :: bool
  letter_valid :: bool
  word_valid :: bool

definition validate_timing_standards :: "timing_element list \<Rightarrow> error + validation_report" where
  "validate_timing_standards df =
     (let res = compute_results df in
      case res 0 of
        None \<Rightarrow> Inl (KeyError 0)
      | Some r0 \<Rightarrow>
          (let dit_mean = mean r0 in
           case res 1 of
             None \<Rightarrow> Inl (KeyError 1)
           | Some r1 \<Rightarrow>
               (case res 3 of
                  None \<Rightarrow> Inl (KeyError 3)
                | Some r3 \<Rightarrow>
                    (case res 4 of
                       None \<Rightarrow> Inl (KeyError 4)
                     | Some r4 \<Rightarrow>
                         (let tolerance = 0.20;
                              dr = np_divide (mean r1) dit_mean;
                              lr = np_divide (mean r3) dit_mean;
                              wr = np_divide (mean r4) dit_mean
                          in Inr \<lparr>results = res,
                                  dah_ratio = dr, letter_ratio = lr, word_ratio = wr,
                                  dah_valid = ratio_valid dr 3.0 tolerance,
                                  letter_valid = ratio_valid lr 3.0 tolerance,
                                  word_valid = ratio_valid wr 7.0 tolerance\<rparr>)))))"

section \<open>Sequence window builder (prepare\_sequence\_data)\<close>

text \<open>
  \<open>create_sequences\<close> is lines 173 to 178. \<open>X[i:i+seq_len]\<close> is a slice, which never raises; \<open>y[i+seq_len]\<close> is an index, which
  raises past the end of \<open>y\<close>. \<open>range\<close> of a number that is not positive is empty.
  The window length is a length: a natural number.
\<close>

definition create_sequences_body ::
  "'a list \<Rightarrow> 'b list \<Rightarrow> nat \<Rightarrow> nat \<Rightarrow> 'a list list \<times> 'b list
     \<Rightarrow> error + 'a list list \<times> 'b list" where
  "create_sequences_body X y seq_len i acc =
     (if i + seq_len < length y
      then Inr (fst acc @ [take seq_len (drop i X)], snd acc @ [y ! (i + seq_len)])
      else Inl IndexError)"

definition create_sequences ::
  "'a list \<Rightarrow> 'b list \<Rightarrow> nat \<Rightarrow> error + 'a list list \<times> 'b list" where
  "create_sequences X y seq_len =
     for_range (create_sequences_body X y seq_len)
       [0..<nat (int (length X) - int seq_len)] ([], [])"

definition prepare_sequence_data ::
  "'a list \<Rightarrow> 'a list \<Rightarrow> 'b list \<Rightarrow> 'b list \<Rightarrow> nat
     \<Rightarrow> error + 'a list list \<times> 'a list list \<times> 'b list \<times> 'b list" where
  "prepare_sequence_data X_train X_test y_train y_test sequence_length =
     (case create_sequences X_train y_train sequence_length of
        Inl e \<Rightarrow> Inl e
      | Inr (X_train_seq, y_train_seq) \<Rightarrow>
          (case create_sequences X_test y_test sequence_length of
             Inl e \<Rightarrow> Inl e
           | Inr (X_test_seq, y_test_seq) \<Rightarrow>
               Inr (X_train_seq, X_test_seq, y_train_seq, y_test_seq)))"

section \<open>Training loop controller (train\_model, train\_morse\_model\_v3.py)\<close>

text \<open>
  The comparison \<open>val_loss < best_val_loss\<close> of two Python floats: false whenever one side is
  NaN, and \<open>float('inf')\<close> is not below itself.
\<close>

fun float_less :: "pyfloat \<Rightarrow> pyfloat \<Rightarrow> bool" where
  "float_less NaN b = False"
| "float_less a NaN = False"
| "float_less (Finite a) (Finite b) = (a < b)"
| "float_less (Finite a) PosInf = True"
| "float_less (Finite a) NegInf = False"
| "float_less PosInf b = False"
| "float_less NegInf NegInf = False"
| "float_less NegInf b = True"

text \<open>
  The objects the function shares and mutates are in a heap. An address of \<open>tensors\<close> is the
  storage of one tensor, with its current contents; an address of \<open>dicts\<close> is one dictionary
  object from parameter names to tensors. A module is its named parameters, each with the
  address of its storage.

  \<^item> \<open>optimizer.step()\<close> writes the parameters in place (\<open>write_params\<close>).
  \<^item> \<open>model.state_dict()\<close> builds a new dictionary whose tensors share the storage of the
    parameters: its entries are the parameters' own addresses.
  \<^item> \<open>.copy()\<close> of a dictionary is shallow: a new dictionary object with the same entries.
  \<^item> \<open>model.load_state_dict(d)\<close> raises when the keys of \<open>d\<close> are not the parameters' names,
    and otherwise copies, parameter by parameter, the contents of the tensor of \<open>d\<close> into
    the parameter's storage (\<open>param.copy_(input_param)\<close>).
\<close>

type_synonym addr = nat

type_synonym module = "(string \<times> addr) list"

record 'v pyheap =
  tensors :: "addr \<Rightarrow> 'v"
  dicts :: "addr \<Rightarrow> (string \<times> addr) list option"
  next_dict :: addr

definition new_dict :: "(string \<times> addr) list \<Rightarrow> 'v pyheap \<Rightarrow> addr \<times> 'v pyheap" where
  "new_dict entries h =
     (next_dict h, h\<lparr>dicts := (dicts h)(next_dict h \<mapsto> entries), next_dict := Suc (next_dict h)\<rparr>)"

definition state_dict :: "module \<Rightarrow> 'v pyheap \<Rightarrow> addr \<times> 'v pyheap" where
  "state_dict model h = new_dict model h"

definition dict_copy :: "addr \<Rightarrow> 'v pyheap \<Rightarrow> error + addr \<times> 'v pyheap" where
  "dict_copy d h =
     (case dicts h d of
        None \<Rightarrow> Inl (StepFailure ''not a dictionary'')
      | Some entries \<Rightarrow> Inr (new_dict entries h))"

definition tensor_copy :: "addr \<Rightarrow> addr \<Rightarrow> 'v pyheap \<Rightarrow> 'v pyheap" where
  "tensor_copy dst src h = h\<lparr>tensors := (tensors h)(dst := tensors h src)\<rparr>"

definition load_entry :: "(string \<times> addr) list \<Rightarrow> string \<times> addr \<Rightarrow> 'v pyheap \<Rightarrow> 'v pyheap" where
  "load_entry entries np h =
     (case map_of entries (fst np) of
        None \<Rightarrow> h
      | Some src \<Rightarrow> tensor_copy (snd np) src h)"

definition load_state_dict :: "module \<Rightarrow> addr \<Rightarrow> 'v pyheap \<Rightarrow> error + 'v pyheap" where
  "load_state_dict model d h =
     (case dicts h d of
        None \<Rightarrow> Inl (StepFailure ''not a dictionary'')
      | Some entries \<Rightarrow>
          (if set (map fst entries) \<noteq> set (map fst model)
           then Inl (StepFailure ''RuntimeError: missing or unexpected keys'')
           else Inr (fold (load_entry entries) model h)))"

definition read_params :: "module \<Rightarrow> 'v pyheap \<Rightarrow> 'v list" where
  "read_params model h = map (\<lambda>np. tensors h (snd np)) model"

definition write_params :: "module \<Rightarrow> 'v list \<Rightarrow> 'v pyheap \<Rightarrow> 'v pyheap" where
  "write_params model vs h =
     fold (\<lambda>npv h'. h'\<lparr>tensors := (tensors h')(snd (fst npv) := snd npv)\<rparr>) (zip model vs) h"

text \<open>
  The network, the loss, the optimizer, the scheduler and the data loaders are outside the
  controller. One epoch uses them through three functions of an opaque state \<open>'o\<close>
  (optimizer moments, learning rate, scheduler counters, dropout randomness):
  \<^item> \<open>train_pass\<close>: the training phase, all batches: from the parameters' contents to their
    new contents, or an exception;
  \<^item> \<open>val_pass\<close>: the validation phase and \<open>val_loss /= len(val_loader)\<close>: the mean
    validation loss of the parameters, possibly not finite, or an exception;
  \<^item> \<open>scheduler_step\<close>: \<open>scheduler.step(val_loss)\<close>.
  Of \<open>history\<close> the model keeps the list \<open>history['val_loss']\<close>.
\<close>

record ('v, 'o) passes =
  train_pass :: "'o \<Rightarrow> 'v list \<Rightarrow> error + 'o \<times> 'v list"
  val_pass :: "'o \<Rightarrow> 'v list \<Rightarrow> error + pyfloat"
  scheduler_step :: "pyfloat \<Rightarrow> 'o \<Rightarrow> 'o"

record ('v, 'o) train_state =
  heap :: "'v pyheap"
  optim :: 'o
  history :: "pyfloat list"
  best_val_loss :: pyfloat
  patience_counter :: nat
  best_model_state :: "addr option"

text \<open>
  Lines 253 to 262: the early-stopping block at the end of an epoch. The result says whether
  the loop was left by \<open>break\<close>. Line 257 is \<open>best_model_state = model.state_dict().copy()\<close>.
\<close>

definition early_stopping ::
  "module \<Rightarrow> int \<Rightarrow> pyfloat \<Rightarrow> ('v, 'o) train_state \<Rightarrow> error + bool \<times> ('v, 'o) train_state" where
  "early_stopping model patience val_loss st =
     (if float_less val_loss (best_val_loss st)
      then (case state_dict model (heap st) of
              (d, h1) \<Rightarrow>
                (case dict_copy d h1 of
                   Inl e \<Rightarrow> Inl e
                 | Inr (c, h2) \<Rightarrow>
                     Inr (False, st\<lparr>heap := h2, best_val_loss := val_loss,
                                     patience_counter := 0, best_model_state := Some c\<rparr>)))
      else (let st' = st\<lparr>patience_counter := patience_counter st + 1\<rparr>
            in if int (patience_counter st') \<ge> patience then Inr (True, st')
               else Inr (False, st')))"

text \<open>Lines 198 to 262: one epoch. Its number is used only for the progress line.\<close>

definition epoch_body ::
  "('v, 'o) passes \<Rightarrow> module \<Rightarrow> int \<Rightarrow> nat \<Rightarrow> ('v, 'o) train_state
     \<Rightarrow> error + bool \<times> ('v, 'o) train_state" where
  "epoch_body env model patience epoch st =
     (case train_pass env (optim st) (read_params model (heap st)) of
        Inl e \<Rightarrow> Inl e
      | Inr (o1, vs) \<Rightarrow>
          (let h1 = write_params model vs (heap st) in
           case val_pass env o1 (read_params model h1) of
             Inl e \<Rightarrow> Inl e
           | Inr val_loss \<Rightarrow>
               early_stopping model patience val_loss
                 (st\<lparr>heap := h1, optim := scheduler_step env val_loss o1,
                      history := history st @ [val_loss]\<rparr>)))"

fun epoch_loop ::
  "('v, 'o) passes \<Rightarrow> module \<Rightarrow> int \<Rightarrow> nat list \<Rightarrow> ('v, 'o) train_state
     \<Rightarrow> error + ('v, 'o) train_state" where
  "epoch_loop env model patience [] st = Inr st"
| "epoch_loop env model patience (epoch # rest) st =
     (case epoch_body env model patience epoch st of
        Inl e \<Rightarrow> Inl e
      | Inr (stop, st') \<Rightarrow> if stop then Inr st' else epoch_loop env model patience rest st')"

text \<open>Lines 264 to 266: \<open>if best_model_state is not None: model.load_state_dict(best_model_state)\<close>.\<close>

definition restore_best :: "module \<Rightarrow> ('v, 'o) train_state \<Rightarrow> error + ('v, 'o) train_state" where
  "restore_best model st =
     (case best_model_state st of
        None \<Rightarrow> Inr st
      | Some d \<Rightarrow>
          (case load_state_dict model d (heap st) of
             Inl e \<Rightarrow> Inl e
           | Inr h \<Rightarrow> Inr (st\<lparr>heap := h\<rparr>)))"

text \<open>
  Before the loop: \<open>best_val_loss = float('inf')\<close>, \<open>patience_counter = 0\<close>,
  \<open>best_model_state = None\<close>, an empty history. \<open>opt0\<close> and \<open>h0\<close> are the optimizer state and
  the heap the function is entered with.
\<close>

definition initial_train_state :: "'o \<Rightarrow> 'v pyheap \<Rightarrow> ('v, 'o) train_state" where
  "initial_train_state opt0 h0 =
     \<lparr>heap = h0, optim = opt0, history = [], best_val_loss = PosInf,
      patience_counter = 0, best_model_state = None\<rparr>"

text \<open>
  The function returns \<open>history\<close> and leaves the trained parameters in the model; the
  embedding returns the final state, which holds both.
\<close>

definition train_model ::
  "('v, 'o) passes \<Rightarrow> module \<Rightarrow> nat \<Rightarrow> int \<Rightarrow> 'o \<Rightarrow> 'v pyheap \<Rightarrow> error + ('v, 'o) train_state" where
  "train_model env model epochs patience opt0 h0 =
     (case epoch_loop env model patience [0..<epochs] (initial_train_state opt0 h0) of
        Inl e \<Rightarrow> Inl e
      | Inr st \<Rightarrow> restore_best model st)"

section \<open>The generators and the validator in binary64 arithmetic\<close>

text \<open>
  Python's \<open>float\<close> and numpy's \<open>float64\<close> are IEEE 754 binary64 numbers: every
  arithmetic operation returns the exact result rounded to 53 significant bits, to the
  nearest such number and to the one with an even last bit in a tie. \<open>b64\<close> is that
  rounding on the reals, with the exponent \<open>\<lfloor>log 2 \<bar>x\<bar>\<rfloor>\<close> of \<open>x\<close> unbounded: it is the
  binary64 rounding for every result whose magnitude lies between \<open>2 powi (- 1022)\<close> and
  \<open>2 powi 1024\<close>, that is, as long as nothing overflows or becomes subnormal.
\<close>

definition round_half_even :: "real \<Rightarrow> int" where
  "round_half_even y =
     (let f = \<lfloor>y\<rfloor> in
      if y - of_int f < 1 / 2 then f
      else if 1 / 2 < y - of_int f then f + 1
      else if even f then f else f + 1)"

definition b64 :: "real \<Rightarrow> real" where
  "b64 x =
     (if x = 0 then 0
      else (let e = \<lfloor>log 2 \<bar>x\<bar>\<rfloor> in
            of_int (round_half_even (x / 2 powi (e - 52))) * 2 powi (e - 52)))"

text \<open>
  The functions of the version 3 generator and of the validator once more, with the
  rounding \<open>rnd\<close> applied to the result of every arithmetic operation on floats and to
  every decimal literal, in the order in which Python evaluates the expression
  (\<open>dit_units * dit_duration_sec * 1000\<close> is two multiplications, left to right). The
  literals \<open>1.0\<close>, \<open>3.0\<close>, \<open>7.0\<close> and the integers are binary64 numbers as they stand. With
  the identity for \<open>rnd\<close> the generators are the definitions above; with \<open>b64\<close> they are
  what the interpreter computes.
\<close>

definition random_uniform_fl :: "(real \<Rightarrow> real) \<Rightarrow> real \<Rightarrow> real \<Rightarrow> rng \<Rightarrow> real \<times> rng" where
  "random_uniform_fl rnd a b g =
     (case random_random g of (u, g') \<Rightarrow> (rnd (a + rnd (rnd (b - a) * u)), g'))"

definition np_random_normal_fl ::
  "(real \<Rightarrow> real) \<Rightarrow> real \<Rightarrow> real \<Rightarrow> rng \<Rightarrow> error + real \<times> rng" where
  "np_random_normal_fl rnd loc scale g =
     (if scale < 0 then Inl ValueError
      else (case standard_normal g of (z, g') \<Rightarrow> Inr (rnd (loc + rnd (scale * z)), g')))"

definition wpm_to_dit_duration_fl :: "(real \<Rightarrow> real) \<Rightarrow> real \<Rightarrow> error + real" where
  "wpm_to_dit_duration_fl rnd wpm =
     (if wpm = 0 then Inl ZeroDivisionError else Inr (rnd (rnd 1.2 / wpm)))"

definition dit_to_milliseconds_fl :: "(real \<Rightarrow> real) \<Rightarrow> real \<Rightarrow> real \<Rightarrow> error + real" where
  "dit_to_milliseconds_fl rnd dit_units wpm =
     (case wpm_to_dit_duration_fl rnd wpm of
        Inl e \<Rightarrow> Inl e
      | Inr dit_duration_sec \<Rightarrow> Inr (rnd (rnd (dit_units * dit_duration_sec) * 1000)))"

definition apply_human_jitter_fl ::
  "(real \<Rightarrow> real) \<Rightarrow> real \<Rightarrow> real \<Rightarrow> rng \<Rightarrow> error + real \<times> rng" where
  "apply_human_jitter_fl rnd duration sigma g =
     (case np_random_normal_fl rnd 1.0 sigma g of
        Inl e \<Rightarrow> Inl e
      | Inr (sample, g') \<Rightarrow> Inr (max (rnd (duration * sample)) 1.0, g'))"

definition resample_wpm_fl ::
  "(real \<Rightarrow> real) \<Rightarrow> nat \<Rightarrow> nat \<Rightarrow> real \<times> real \<Rightarrow> gen_state \<Rightarrow> gen_state" where
  "resample_wpm_fl rnd period i wpm_range st =
     (if i mod period = 0
      then (case random_uniform_fl rnd (fst wpm_range) (snd wpm_range) (rand st) of
              (w, g) \<Rightarrow> st\<lparr>current_wpm := Some w, rand := g\<rparr>)
      else st)"

definition emit_fl ::
  "(real \<Rightarrow> real) \<Rightarrow> real \<Rightarrow> int \<Rightarrow> int \<Rightarrow> real \<Rightarrow> gen_state \<Rightarrow> error + gen_state" where
  "emit_fl rnd timing_units key lab sigma st =
     (case current_wpm st of
        None \<Rightarrow> Inl UnboundLocalError
      | Some wpm \<Rightarrow>
          (case dit_to_milliseconds_fl rnd timing_units wpm of
             Inl e \<Rightarrow> Inl e
           | Inr d \<Rightarrow>
               (case apply_human_jitter_fl rnd d sigma (rand st) of
                  Inl e \<Rightarrow> Inl e
                | Inr (d', g) \<Rightarrow>
                    Inr (st\<lparr>data := data st @
                                [\<lparr>duration_ms = d', is_key_down = key, label = lab\<rparr>],
                            rand := g\<rparr>))))"

definition choose_element_fl :: "(real \<Rightarrow> real) \<Rightarrow> real \<Rightarrow> real \<times> int \<times> int" where
  "choose_element_fl rnd choice =
     (if choice < rnd 0.20 then (DIT_UNITS, 1, 0)
      else if choice < rnd 0.35 then (DAH_UNITS, 1, 1)
      else if choice < rnd 0.55 then (ELEMENT_GAP, 0, 2)
      else if choice < rnd 0.80 then (LETTER_GAP, 0, 3)
      else (WORD_GAP, 0, 4))"

definition dataset_body_fl ::
  "(real \<Rightarrow> real) \<Rightarrow> real \<times> real \<Rightarrow> real \<Rightarrow> nat \<Rightarrow> gen_state \<Rightarrow> error + gen_state" where
  "dataset_body_fl rnd wpm_range sigma i st0 =
     (let st1 = resample_wpm_fl rnd 100 i wpm_range st0 in
      case random_random (rand st1) of
        (choice, g) \<Rightarrow>
          (case choose_element_fl rnd choice of
             (timing_units, key, lab) \<Rightarrow>
               emit_fl rnd timing_units key lab sigma (st1\<lparr>rand := g\<rparr>)))"

definition generate_morse_dataset_v3_fl ::
  "(real \<Rightarrow> real) \<Rightarrow> nat \<Rightarrow> real \<times> real \<Rightarrow> real \<Rightarrow> rng \<Rightarrow> error + timing_element list" where
  "generate_morse_dataset_v3_fl rnd num_samples wpm_range sigma g =
     map_sum id data
       (for_range (dataset_body_fl rnd wpm_range sigma) [0..<num_samples] (start_state g))"

fun emit_pattern_fl ::
  "(real \<Rightarrow> real) \<Rightarrow> real \<Rightarrow> nat \<Rightarrow> (nat \<times> char) list \<Rightarrow> gen_state \<Rightarrow> error + gen_state" where
  "emit_pattern_fl rnd sigma len [] st = Inr st"
| "emit_pattern_fl rnd sigma len ((j, symbol) # rest) st =
     (case (if symbol = CHR ''.'' then emit_fl rnd DIT_UNITS 1 0 sigma st
            else emit_fl rnd DAH_UNITS 1 1 sigma st) of
        Inl e \<Rightarrow> Inl e
      | Inr st1 \<Rightarrow>
          (if int j < int len - 1
           then (case emit_fl rnd ELEMENT_GAP 0 2 sigma st1 of
                   Inl e \<Rightarrow> Inl e
                 | Inr st2 \<Rightarrow> emit_pattern_fl rnd sigma len rest st2)
           else emit_pattern_fl rnd sigma len rest st1))"

definition emit_terminal_gap_fl ::
  "(real \<Rightarrow> real) \<Rightarrow> real \<Rightarrow> gen_state \<Rightarrow> error + gen_state" where
  "emit_terminal_gap_fl rnd sigma st =
     (case random_random (rand st) of
        (u, g) \<Rightarrow>
          (if u < rnd 0.25 then emit_fl rnd WORD_GAP 0 4 sigma (st\<lparr>rand := g\<rparr>)
           else emit_fl rnd LETTER_GAP 0 3 sigma (st\<lparr>rand := g\<rparr>)))"

definition sequence_body_fl ::
  "(real \<Rightarrow> real) \<Rightarrow> real \<times> real \<Rightarrow> real \<Rightarrow> nat \<Rightarrow> gen_state \<Rightarrow> error + gen_state" where
  "sequence_body_fl rnd wpm_range sigma i st0 =
     (let st1 = resample_wpm_fl rnd 50 i wpm_range st0 in
      case random_choice (map fst morse_code) (rand st1) of
        Inl e \<Rightarrow> Inl e
      | Inr (char, g) \<Rightarrow>
          (case map_of morse_code char of
             None \<Rightarrow> Inl (KeyErrorStr char)
           | Some pattern \<Rightarrow>
               (case emit_pattern_fl rnd sigma (length pattern) (enumerate 0 pattern)
                       (st1\<lparr>rand := g\<rparr>) of
                  Inl e \<Rightarrow> Inl e
                | Inr st2 \<Rightarrow> emit_terminal_gap_fl rnd sigma st2)))"

definition generate_sequence_based_data_v3_fl ::
  "(real \<Rightarrow> real) \<Rightarrow> nat \<Rightarrow> real \<times> real \<Rightarrow> real \<Rightarrow> rng \<Rightarrow> error + timing_element list" where
  "generate_sequence_based_data_v3_fl rnd num_characters wpm_range sigma g =
     map_sum id data
       (for_range (sequence_body_fl rnd wpm_range sigma) [0..<num_characters] (start_state g))"

text \<open>
  The sum of a column of floats depends on the order in which its summands are added, and
  the source leaves that order to pandas (\<open>.mean()\<close>, \<open>.std()\<close>). A \<open>sum_tree\<close> is one way of
  adding: an entry, or the rounded sum of two partial sums. The validator takes the way
  pandas adds a column as the parameter \<open>order\<close>; \<open>in_order\<close> adds the summands one after the
  other from the first. The mean is the sum divided by the count; the standard deviation
  is the root of the sum of the squared distances to that mean divided by \<open>count - 1\<close>.
\<close>

datatype sum_tree = Entry real | Plus sum_tree sum_tree

fun summands :: "sum_tree \<Rightarrow> real list" where
  "summands (Entry x) = [x]"
| "summands (Plus l r) = summands l @ summands r"

fun tree_sum :: "(real \<Rightarrow> real) \<Rightarrow> sum_tree \<Rightarrow> real" where
  "tree_sum rnd (Entry x) = x"
| "tree_sum rnd (Plus l r) = rnd (tree_sum rnd l + tree_sum rnd r)"

fun in_order :: "real list \<Rightarrow> sum_tree" where
  "in_order [] = Entry 0"
| "in_order (x # xs) = foldl (\<lambda>t y. Plus t (Entry y)) (Entry x) xs"

definition series_mean_fl :: "(real \<Rightarrow> real) \<Rightarrow> (real list \<Rightarrow> sum_tree) \<Rightarrow> real list \<Rightarrow> real" where
  "series_mean_fl rnd order xs = rnd (tree_sum rnd (order xs) / real (length xs))"

definition series_std_fl ::
  "(real \<Rightarrow> real) \<Rightarrow> (real list \<Rightarrow> sum_tree) \<Rightarrow> real list \<Rightarrow> pyfloat" where
  "series_std_fl rnd order xs =
     (if length xs \<le> 1 then NaN
      else Finite (rnd (sqrt (rnd (tree_sum rnd
             (order (map (\<lambda>x. rnd ((rnd (series_mean_fl rnd order xs - x))\<^sup>2)) xs))
               / real (length xs - 1))))))"

definition compute_results_fl ::
  "(real \<Rightarrow> real) \<Rightarrow> (real list \<Rightarrow> sum_tree) \<Rightarrow> timing_element list \<Rightarrow> int
     \<Rightarrow> label_stats option" where
  "compute_results_fl rnd order df l =
     (if 0 \<le> l \<and> l < 5 \<and> length (label_durations df l) > 0
      then Some \<lparr>mean = series_mean_fl rnd order (label_durations df l),
                 std = series_std_fl rnd order (label_durations df l),
                 count = length (label_durations df l)\<rparr>
      else None)"

definition np_divide_fl :: "(real \<Rightarrow> real) \<Rightarrow> real \<Rightarrow> real \<Rightarrow> pyfloat" where
  "np_divide_fl rnd a b =
     (if b \<noteq> 0 then Finite (rnd (a / b))
      else if a = 0 then NaN
      else if 0 < a then PosInf else NegInf)"

definition ratio_valid_fl :: "(real \<Rightarrow> real) \<Rightarrow> pyfloat \<Rightarrow> real \<Rightarrow> real \<Rightarrow> bool" where
  "ratio_valid_fl rnd ratio expected tolerance =
     (case ratio of
        Finite r \<Rightarrow> rnd (\<bar>rnd (r - expected)\<bar> / expected) < tolerance
      | _ \<Rightarrow> False)"

definition validate_timing_standards_fl ::
  "(real \<Rightarrow> real) \<Rightarrow> (real list \<Rightarrow> sum_tree) \<Rightarrow> timing_element list
     \<Rightarrow> error + validation_report" where
  "validate_timing_standards_fl rnd order df =
     (let res = compute_results_fl rnd order df in
      case res 0 of
        None \<Rightarrow> Inl (KeyError 0)
      | Some r0 \<Rightarrow>
          (let dit_mean = mean r0 in
           case res 1 of
             None \<Rightarrow> Inl (KeyError 1)
           | Some r1 \<Rightarrow>
               (case res 3 of
                  None \<Rightarrow> Inl (KeyError 3)
                | Some r3 \<Rightarrow>
                    (case res 4 of
                       None \<Rightarrow> Inl (KeyError 4)
                     | Some r4 \<Rightarrow>
                         (let tolerance = rnd 0.20;
                              dr = np_divide_fl rnd (mean r1) dit_mean;
                              lr = np_divide_fl rnd (mean r3) dit_mean;
                              wr = np_divide_fl rnd (mean r4) dit_mean
                          in Inr \<lparr>results = res,
                                  dah_ratio = dr, letter_ratio = lr, word_ratio = wr,
                                  dah_valid = ratio_valid_fl rnd dr 3.0 tolerance,
                                  letter_valid = ratio_valid_fl rnd lr 3.0 tolerance,
                                  word_valid = ratio_valid_fl rnd wr 7.0 tolerance\<rparr>)))))"

section \<open>Definitions used to state the properties\<close>

subsection \<open>Rows of the generators\<close>

text \<open>
  A row is well formed when its duration is at least 1 ms and its key state agrees with its
  label: key down for Dit (0) and Dah (1), key up for the three gaps (2, 3, 4).
\<close>

definition well_formed_row :: "timing_element \<Rightarrow> bool" where
  "well_formed_row e =
     (1 \<le> duration_ms e \<and>
      ((is_key_down e = 1 \<and> (label e = 0 \<or> label e = 1)) \<or>
       (is_key_down e = 0 \<and> (label e = 2 \<or> label e = 3 \<or> label e = 4))))"

text \<open>The five kinds of row the version 3 generators append: timing units, key state, label.\<close>

definition row_kinds :: "(real \<times> int \<times> int) set" where
  "row_kinds = {(DIT_UNITS, 1, 0), (DAH_UNITS, 1, 1), (ELEMENT_GAP, 0, 2),
                (LETTER_GAP, 0, 3), (WORD_GAP, 0, 4)}"

text \<open>
  A property of the generator state is preserved when resampling the speed, drawing random
  numbers and appending a row of one of the five kinds keep it.
\<close>

definition preserved :: "real \<times> real \<Rightarrow> real \<Rightarrow> (gen_state \<Rightarrow> bool) \<Rightarrow> bool" where
  "preserved wr sigma I =
     ((\<forall>s p j. I s \<longrightarrow> I (resample_wpm p j wr s)) \<and>
      (\<forall>s g. I s \<longrightarrow> I (s\<lparr>rand := g\<rparr>)) \<and>
      (\<forall>u k l s s'. (u, k, l) \<in> row_kinds \<longrightarrow> emit u k l sigma s = Inr s' \<longrightarrow> I s \<longrightarrow> I s'))"

text \<open>
  The rows of one character as the specification words them: the pulses of the pattern in
  order, a Dit for a dot and a Dah for anything else, with an ElementGap between consecutive
  pulses and none after the last.
\<close>

definition pulse :: "char \<Rightarrow> real \<times> int \<times> int" where
  "pulse symbol = (if symbol = CHR ''.'' then (DIT_UNITS, 1, 0) else (DAH_UNITS, 1, 1))"

fun pulse_plan :: "string \<Rightarrow> (real \<times> int \<times> int) list" where
  "pulse_plan [] = []"
| "pulse_plan [s] = [pulse s]"
| "pulse_plan (s # t # rest) = pulse s # (ELEMENT_GAP, 0, 2) # pulse_plan (t # rest)"

text \<open>
  The rows version 3 makes of a plan at speed \<open>wpm\<close>: the n-th row of the plan takes the n-th
  Gaussian draw from \<open>zs\<close>, counted from position \<open>n\<close>, and is floored at 1 ms.
\<close>

fun jittered_rows ::
  "real \<Rightarrow> real \<Rightarrow> (nat \<Rightarrow> real) \<Rightarrow> nat \<Rightarrow> (real \<times> int \<times> int) list \<Rightarrow> timing_element list" where
  "jittered_rows wpm sigma zs n [] = []"
| "jittered_rows wpm sigma zs n ((units, key, lab) # rest) =
     \<lparr>duration_ms = max (units * (1.2 / wpm) * 1000 * (1.0 + sigma * zs n)) 1.0,
      is_key_down = key, label = lab\<rparr> # jittered_rows wpm sigma zs (Suc n) rest"

text \<open>
  The rows version 2 makes of a plan at \<open>current_dit\<close> milliseconds per dit: the same draws,
  a fixed sigma of 0.08 and no floor.
\<close>

fun jittered_rows_v2 ::
  "real \<Rightarrow> (nat \<Rightarrow> real) \<Rightarrow> nat \<Rightarrow> (real \<times> int \<times> int) list \<Rightarrow> timing_element list" where
  "jittered_rows_v2 current_dit zs n [] = []"
| "jittered_rows_v2 current_dit zs n ((units, key, lab) # rest) =
     \<lparr>duration_ms = units * current_dit * (1.0 + 0.08 * zs n),
      is_key_down = key, label = lab\<rparr> # jittered_rows_v2 current_dit zs (Suc n) rest"



subsection \<open>Random states for evaluation\<close>

text \<open>
  A random state whose streams start with the given lists (and continue with zeros), and
  one whose uniform stream is constant. A standard normal draw of 0 is a jitter multiplier
  of exactly 1.
\<close>

definition list_rng :: "real list \<Rightarrow> nat list \<Rightarrow> real list \<Rightarrow> rng" where
  "list_rng us cs zs =
     \<lparr>uniforms = (\<lambda>n. if n < length us then us ! n else 0), u_pos = 0,
      choices = (\<lambda>n. if n < length cs then cs ! n else 0), c_pos = 0,
      normals = (\<lambda>n. if n < length zs then zs ! n else 0), n_pos = 0\<rparr>"


text \<open>A Dit at 20 words per minute without jitter.\<close>

definition dit_60 :: timing_element where
  "dit_60 = \<lparr>duration_ms = 60, is_key_down = 1, label = 0\<rparr>"

subsection \<open>Reading the controller's state\<close>

text \<open>
  The contents of the dictionary in \<open>best_model_state\<close>, read through its tensors as the heap
  holds them now, and what a run of \<open>train_model\<close> leaves: the parameters of the model,
  \<open>history['val_loss']\<close>, \<open>best_val_loss\<close> and the contents of that dictionary.
\<close>

definition read_state_dict :: "'v pyheap \<Rightarrow> addr option \<Rightarrow> (string \<times> 'v) list option" where
  "read_state_dict h best =
     (case best of
        None \<Rightarrow> None
      | Some d \<Rightarrow>
          (case dicts h d of
             None \<Rightarrow> None
           | Some entries \<Rightarrow> Some (map (\<lambda>np. (fst np, tensors h (snd np))) entries)))"

definition run_summary ::
  "module \<Rightarrow> error + ('v, 'o) train_state
     \<Rightarrow> error + ('v list \<times> pyfloat list \<times> pyfloat \<times> (string \<times> 'v) list option)" where
  "run_summary model r =
     map_sum id
       (\<lambda>st. (read_params model (heap st), history st, best_val_loss st,
              read_state_dict (heap st) (best_model_state st))) r"

text \<open>The dictionary in \<open>best_model_state\<close>, when there is one, holds the parameters' own tensors.\<close>

definition snapshot_ok :: "module \<Rightarrow> ('v, 'o) train_state \<Rightarrow> bool" where
  "snapshot_ok model st =
     (case best_model_state st of None \<Rightarrow> True | Some d \<Rightarrow> dicts (heap st) d = Some model)"

subsection \<open>Instances of the opaque passes\<close>

text \<open>
  A module with the single parameter \<open>w\<close>, starting at 0. \<open>counting_passes\<close>: the optimizer
  state counts the training passes, a training pass adds 1 to every parameter, and the
  validation loss of the k-th epoch is the k-th entry of a list (the validation pass
  raises when the list is exhausted). \<open>raising_passes\<close>: the training pass raises.
\<close>

definition one_weight :: module where
  "one_weight = [(''w'', 0)]"

definition empty_heap :: "int pyheap" where
  "empty_heap = \<lparr>tensors = (\<lambda>a. 0), dicts = (\<lambda>d. None), next_dict = 0\<rparr>"

definition counting_passes :: "pyfloat list \<Rightarrow> (int, nat) passes" where
  "counting_passes losses =
     \<lparr>train_pass = (\<lambda>k vs. Inr (Suc k, map (\<lambda>v. v + 1) vs)),
      val_pass = (\<lambda>k vs. if 0 < k \<and> k \<le> length losses then Inr (losses ! (k - 1))
                           else Inl (StepFailure ''no loss given'')),
      scheduler_step = (\<lambda>l k. k)\<rparr>"


section \<open>Properties of the version 3 generators\<close>

lemma for_range_invariant:
  assumes "for_range body idx s = Inr s'" and "P s"
    and "\<And>i t t'. P t \<Longrightarrow> body i t = Inr t' \<Longrightarrow> P t'"
  shows "P s'"
  using assms(1,2)
proof (induction idx arbitrary: s)
  case Nil
  then show ?case by simp
next
  case (Cons i rest)
  then obtain t where t: "body i s = Inr t" and r: "for_range body rest t = Inr s'"
    by (auto split: sum.splits)
  from assms(3)[OF Cons.prems(2) t] have "P t" .
  from Cons.IH[OF r this] show ?case .
qed

lemma for_range_total:
  assumes "P s" and "\<And>i t. P t \<Longrightarrow> \<exists>t'. body i t = Inr t' \<and> P t'"
  shows "\<exists>s'. for_range body idx s = Inr s' \<and> P s'"
  using assms(1)
proof (induction idx arbitrary: s)
  case Nil
  then show ?case by simp
next
  case (Cons i rest)
  from assms(2)[OF Cons.prems] obtain t where t: "body i s = Inr t" "P t" by blast
  from Cons.IH[OF t(2)] t(1) show ?case by simp
qed

lemma for_range_upt:
  assumes "P a s" and "a \<le> b"
    and "\<And>i t. i < b \<Longrightarrow> P i t \<Longrightarrow> \<exists>t'. body i t = Inr t' \<and> P (Suc i) t'"
  shows "\<exists>s'. for_range body [a..<b] s = Inr s' \<and> P b s'"
  using assms(1,2)
proof (induction "b - a" arbitrary: a s)
  case 0
  then show ?case by simp
next
  case (Suc d)
  then have lt: "a < b" by simp
  from assms(3)[OF lt Suc.prems(1)] obtain t where
    t: "body a s = Inr t" "P (Suc a) t" by blast
  have d: "d = b - Suc a" using Suc.hyps(2) by simp
  have step: "\<exists>s'. for_range body [Suc a..<b] t = Inr s' \<and> P b s'"
    using Suc.hyps(1)[OF d t(2)] lt by simp
  from lt have "[a..<b] = a # [Suc a..<b]" by (rule upt_conv_Cons)
  with t(1) step show ?case by simp
qed

lemma emit_appends:
  assumes "emit u k l sigma st = Inr st'"
  shows "\<exists>d. 1 \<le> d \<and> data st' = data st @ [\<lparr>duration_ms = d, is_key_down = k, label = l\<rparr>]
           \<and> current_wpm st' = current_wpm st"
  using assms
  by (auto simp: emit_def apply_human_jitter_def np_random_normal_def standard_normal_def
      split: option.splits sum.splits if_splits)

lemma resample_wpm_data: "data (resample_wpm p i wr st) = data st"
  by (simp add: resample_wpm_def random_uniform_def random_random_def split: prod.splits)

lemma choose_element_kind: "choose_element c \<in> row_kinds"
  by (simp add: choose_element_def row_kinds_def)

text \<open>
  A property of the generator state that resampling the speed, drawing random numbers and
  appending a row of one of the five kinds keep is kept by both loop bodies, and so
  holds of the state the loop ends in.
\<close>

lemma dataset_body_preserves:
  assumes "preserved wr sigma I" and "I st" and "dataset_body wr sigma i st = Inr st'"
  shows "I st'"
proof -
  obtain c g where cg: "random_random (rand (resample_wpm 100 i wr st)) = (c, g)"
    by (cases "random_random (rand (resample_wpm 100 i wr st))")
  obtain u k l where ukl: "choose_element c = (u, k, l)"
    by (cases "choose_element c")
  then have kind: "(u, k, l) \<in> row_kinds"
    using choose_element_kind[of c] by simp
  let ?st1 = "(resample_wpm 100 i wr st)\<lparr>rand := g\<rparr>"
  from assms(3) cg ukl have e: "emit u k l sigma ?st1 = Inr st'"
    by (simp add: dataset_body_def Let_def)
  have "I ?st1" using assms(1,2) by (simp add: preserved_def)
  with assms(1) kind e show ?thesis unfolding preserved_def by blast
qed

lemma emit_pattern_preserves:
  assumes "preserved wr sigma I" and "I st" and "emit_pattern sigma len js st = Inr st'"
  shows "I st'"
  using assms(2,3)
proof (induction js arbitrary: st)
  case Nil
  then show ?case by simp
next
  case (Cons a rest)
  have em: "\<And>u k l s s'. (u, k, l) \<in> row_kinds \<Longrightarrow> emit u k l sigma s = Inr s' \<Longrightarrow> I s \<Longrightarrow> I s'"
    using assms(1) unfolding preserved_def by blast
  obtain j symbol where a: "a = (j, symbol)" by (cases a)
  obtain u l where
    e1: "emit u 1 l sigma st = (if symbol = CHR ''.'' then emit DIT_UNITS 1 0 sigma st
            else emit DAH_UNITS 1 1 sigma st)" and kind: "(u, 1, l) \<in> row_kinds"
    by (cases "symbol = CHR ''.''") (auto simp: row_kinds_def)
  from Cons.prems(2) a e1 obtain st1 where st1: "emit u 1 l sigma st = Inr st1"
    by (auto split: sum.splits)
  have i1: "I st1" by (rule em[OF kind st1 Cons.prems(1)])
  show ?case
  proof (cases "int j < int len - 1")
    case True
    with Cons.prems(2) a e1 st1 obtain st2 where
      st2: "emit ELEMENT_GAP 0 2 sigma st1 = Inr st2"
      and r: "emit_pattern sigma len rest st2 = Inr st'"
      by (auto split: sum.splits)
    have "I st2" by (rule em[OF _ st2 i1]) (simp add: row_kinds_def)
    from Cons.IH[OF this r] show ?thesis .
  next
    case False
    with Cons.prems(2) a e1 st1 have r: "emit_pattern sigma len rest st1 = Inr st'"
      by (auto split: sum.splits)
    from Cons.IH[OF i1 r] show ?thesis .
  qed
qed

lemma emit_terminal_gap_preserves:
  assumes "preserved wr sigma I" and "I st" and "emit_terminal_gap sigma st = Inr st'"
  shows "I st'"
proof -
  have em: "\<And>u k l s s'. (u, k, l) \<in> row_kinds \<Longrightarrow> emit u k l sigma s = Inr s' \<Longrightarrow> I s \<Longrightarrow> I s'"
    using assms(1) unfolding preserved_def by blast
  obtain u g where ug: "random_random (rand st) = (u, g)" by (cases "random_random (rand st)")
  have i1: "I (st\<lparr>rand := g\<rparr>)" using assms(1,2) by (simp add: preserved_def)
  show ?thesis
  proof (cases "u < 0.25")
    case True
    with assms(3) ug have "emit WORD_GAP 0 4 sigma (st\<lparr>rand := g\<rparr>) = Inr st'"
      by (simp add: emit_terminal_gap_def)
    from em[OF _ this i1] show ?thesis by (simp add: row_kinds_def)
  next
    case False
    with assms(3) ug have "emit LETTER_GAP 0 3 sigma (st\<lparr>rand := g\<rparr>) = Inr st'"
      by (simp add: emit_terminal_gap_def)
    from em[OF _ this i1] show ?thesis by (simp add: row_kinds_def)
  qed
qed

lemma sequence_body_preserves:
  assumes "preserved wr sigma I" and "I st" and "sequence_body wr sigma i st = Inr st'"
  shows "I st'"
proof -
  let ?st1 = "resample_wpm 50 i wr st"
  from assms(3) obtain char g pattern st2 where
    p: "emit_pattern sigma (length pattern) (enumerate 0 pattern) (?st1\<lparr>rand := g\<rparr>) = Inr st2"
    and t: "emit_terminal_gap sigma st2 = Inr st'"
    by (auto simp: sequence_body_def Let_def split: sum.splits option.splits prod.splits)
  have "I (?st1\<lparr>rand := g\<rparr>)" using assms(1,2) by (simp add: preserved_def)
  from emit_pattern_preserves[OF assms(1) this p] have "I st2" .
  from emit_terminal_gap_preserves[OF assms(1) this t] show ?thesis .
qed

lemma generators_preserve:
  assumes "preserved wr sigma I" and "I (start_state g)"
    and "generate_morse_dataset_v3 n wr sigma g = Inr df
           \<or> generate_sequence_based_data_v3 n wr sigma g = Inr df"
  shows "\<exists>st. I st \<and> data st = df"
  using assms(3)
proof
  assume "generate_morse_dataset_v3 n wr sigma g = Inr df"
  then obtain st where
    st: "for_range (dataset_body wr sigma) [0..<n] (start_state g) = Inr st"
    and df: "df = data st"
    by (auto simp: generate_morse_dataset_v3_def map_sum_def split: sum.splits)
  have "I st"
    by (rule for_range_invariant[where P = I, OF st assms(2)])
       (rule dataset_body_preserves[OF assms(1)])
  with df show ?thesis by blast
next
  assume "generate_sequence_based_data_v3 n wr sigma g = Inr df"
  then obtain st where
    st: "for_range (sequence_body wr sigma) [0..<n] (start_state g) = Inr st"
    and df: "df = data st"
    by (auto simp: generate_sequence_based_data_v3_def map_sum_def split: sum.splits)
  have "I st"
    by (rule for_range_invariant[where P = I, OF st assms(2)])
       (rule sequence_body_preserves[OF assms(1)])
  with df show ?thesis by blast
qed

lemma well_formed_preserved:
  "preserved wr sigma (\<lambda>s. \<forall>e\<in>set (data s). well_formed_row e)"
  unfolding preserved_def
proof (intro conjI allI impI)
  fix u k l s s'
  assume kind: "(u, k, l) \<in> row_kinds" and e: "emit u k l sigma s = Inr s'"
    and wf: "\<forall>e\<in>set (data s). well_formed_row e"
  from emit_appends[OF e] obtain d where
    d: "1 \<le> d" "data s' = data s @ [\<lparr>duration_ms = d, is_key_down = k, label = l\<rparr>]"
    by blast
  with wf kind show "\<forall>e\<in>set (data s'). well_formed_row e"
    by (auto simp: well_formed_row_def row_kinds_def)
qed (simp_all add: resample_wpm_data)

lemma generators_well_formed:
  assumes "generate_morse_dataset_v3 n wr sigma g = Inr df
           \<or> generate_sequence_based_data_v3 n wr sigma g = Inr df"
  shows "\<forall>e\<in>set df. well_formed_row e"
  using generators_preserve[OF well_formed_preserved _ assms] by (auto simp: start_state_def)

lemma jittered_rows_append:
  "jittered_rows w s zs n (p @ q) = jittered_rows w s zs n p @ jittered_rows w s zs (n + length p) q"
  by (induction p arbitrary: n) auto

lemma emit_eq:
  assumes "current_wpm st = Some w" and "w \<noteq> 0" and "0 \<le> sigma"
  shows "emit u k l sigma st =
           Inr (st\<lparr>data := data st @ jittered_rows w sigma (normals (rand st)) (n_pos (rand st)) [(u, k, l)],
                   rand := (rand st)\<lparr>n_pos := Suc (n_pos (rand st))\<rparr>\<rparr>)"
  using assms
  by (simp add: emit_def dit_to_milliseconds_def wpm_to_dit_duration_def
      apply_human_jitter_def np_random_normal_def standard_normal_def)

lemma pulse_plan_length: "pat \<noteq> [] \<Longrightarrow> Suc (length (pulse_plan pat)) = 2 * length pat"
  by (induction pat rule: pulse_plan.induct) auto

lemma emit_pattern_eq:
  assumes "current_wpm st = Some w" and "w \<noteq> 0" and "j0 + length pat = len"
    and "0 \<le> sigma"
  shows "emit_pattern sigma len (enumerate j0 pat) st =
           Inr (st\<lparr>data := data st @ jittered_rows w sigma (normals (rand st)) (n_pos (rand st)) (pulse_plan pat),
                   rand := (rand st)\<lparr>n_pos := n_pos (rand st) + length (pulse_plan pat)\<rparr>\<rparr>)"
  using assms
proof (induction pat arbitrary: st j0 rule: pulse_plan.induct)
  case 1
  then show ?case by simp
next
  case (2 s)
  then show ?case
    by (simp add: emit_eq pulse_def)
next
  case (3 s t rest)
  let ?st1 = "st\<lparr>data := data st @ jittered_rows w sigma (normals (rand st)) (n_pos (rand st)) [pulse s],
                   rand := (rand st)\<lparr>n_pos := Suc (n_pos (rand st))\<rparr>\<rparr>"
  let ?st2 = "?st1\<lparr>data := data ?st1 @ jittered_rows w sigma (normals (rand ?st1)) (n_pos (rand ?st1)) [(ELEMENT_GAP, 0, 2)],
                   rand := (rand ?st1)\<lparr>n_pos := Suc (n_pos (rand ?st1))\<rparr>\<rparr>"
  have e1: "(if s = CHR ''.'' then emit DIT_UNITS 1 0 sigma st else emit DAH_UNITS 1 1 sigma st) = Inr ?st1"
    using "3.prems"(1,2,4) by (simp add: emit_eq pulse_def)
  have w1: "current_wpm ?st1 = Some w" using "3.prems"(1) by simp
  have e2: "emit ELEMENT_GAP 0 2 sigma ?st1 = Inr ?st2"
    by (rule emit_eq[OF w1 "3.prems"(2,4)])
  have w2: "current_wpm ?st2 = Some w" using "3.prems"(1) by simp
  have len: "Suc j0 + length (t # rest) = len" using "3.prems"(3) by simp
  have lt: "int j0 < int len - 1" using "3.prems"(3) by auto
  have "emit_pattern sigma len (enumerate j0 (s # t # rest)) st
          = emit_pattern sigma len (enumerate (Suc j0) (t # rest)) ?st2"
    using e1 e2 lt by (simp del: jittered_rows.simps)
  also note "3.IH"[OF w2 "3.prems"(2) len "3.prems"(4)]
  finally show ?case
    by (simp add: pulse_def)
qed

lemma jittered_rows_labels:
  "map label (jittered_rows w s zs n plan) = map (\<lambda>p. snd (snd p)) plan"
  by (induction plan arbitrary: n) auto

lemma jittered_rows_keys:
  "map is_key_down (jittered_rows w s zs n plan) = map (\<lambda>p. fst (snd p)) plan"
  by (induction plan arbitrary: n) auto

lemma jittered_rows_length: "length (jittered_rows w s zs n plan) = length plan"
  by (induction plan arbitrary: n) auto

lemma pulse_plan_gaps:
  "length (filter (\<lambda>p. snd (snd p) = 2) (pulse_plan pat)) = length pat - 1"
  by (induction pat rule: pulse_plan.induct) (auto simp: pulse_def)

lemma pulse_plan_pulses:
  "length (filter (\<lambda>p. fst (snd p) = 1) (pulse_plan pat)) = length pat"
  by (induction pat rule: pulse_plan.induct) (auto simp: pulse_def)

lemma pulse_plan_pulse_labels:
  "map (\<lambda>p. snd (snd p)) (filter (\<lambda>p. fst (snd p) = 1) (pulse_plan pat))
     = map (\<lambda>s. if s = CHR ''.'' then 0 else 1) pat"
  by (induction pat rule: pulse_plan.induct) (auto simp: pulse_def)

lemma morse_code_length: "length morse_code = 36"
  by (simp add: morse_code_def)

lemma morse_code_distinct: "distinct (map fst morse_code)"
  by (simp add: morse_code_def)

lemma morse_code_nonempty: "\<forall>cp\<in>set morse_code. snd cp \<noteq> []"
  by (simp add: morse_code_def)

lemma morse_code_lookup:
  assumes "k < length morse_code"
  shows "map_of morse_code (map fst morse_code ! k) = Some (snd (morse_code ! k))"
proof -
  have "(fst (morse_code ! k), snd (morse_code ! k)) \<in> set morse_code"
    using assms by (simp add: nth_mem)
  then have "map_of morse_code (fst (morse_code ! k)) = Some (snd (morse_code ! k))"
    using morse_code_distinct by (simp add: map_of_eq_Some_iff)
  then show ?thesis using assms by simp
qed

lemma resample_wpm_rand:
  "choices (rand (resample_wpm p i wr st)) = choices (rand st)"
  "c_pos (rand (resample_wpm p i wr st)) = c_pos (rand st)"
  "normals (rand (resample_wpm p i wr st)) = normals (rand st)"
  "n_pos (rand (resample_wpm p i wr st)) = n_pos (rand st)"
  "uniforms (rand (resample_wpm p i wr st)) = uniforms (rand st)"
  "data (resample_wpm p i wr st) = data st"
  by (simp_all add: resample_wpm_def random_uniform_def random_random_def)

lemma emit_unbound: "current_wpm st = None \<Longrightarrow> emit u k l sigma st = Inl UnboundLocalError"
  by (simp add: emit_def)

lemma emit_zero_wpm: "current_wpm st = Some 0 \<Longrightarrow> emit u k l sigma st = Inl ZeroDivisionError"
  by (simp add: emit_def dit_to_milliseconds_def wpm_to_dit_duration_def)

lemma emit_Inr_wpm:
  assumes "emit u k l sigma st = Inr st'"
  shows "(\<exists>w. current_wpm st = Some w \<and> w \<noteq> 0) \<and> 0 \<le> sigma"
proof (cases "current_wpm st")
  case None
  with assms show ?thesis by (simp add: emit_unbound)
next
  case (Some w)
  show ?thesis
  proof (cases "w = 0")
    case True
    with assms Some show ?thesis by (simp add: emit_zero_wpm)
  next
    case False
    with assms Some show ?thesis
      by (auto simp: emit_def dit_to_milliseconds_def wpm_to_dit_duration_def
          apply_human_jitter_def np_random_normal_def split: if_splits)
  qed
qed

lemma emit_terminal_gap_eq:
  assumes "current_wpm st = Some w" and "w \<noteq> 0" and "0 \<le> sigma"
  shows "emit_terminal_gap sigma st =
           Inr (st\<lparr>data := data st @ jittered_rows w sigma (normals (rand st)) (n_pos (rand st))
                             [if uniforms (rand st) (u_pos (rand st)) < 0.25
                              then (WORD_GAP, 0, 4) else (LETTER_GAP, 0, 3)],
                   rand := (rand st)\<lparr>u_pos := Suc (u_pos (rand st)),
                                      n_pos := Suc (n_pos (rand st))\<rparr>\<rparr>)"
  using assms by (simp add: emit_terminal_gap_def random_random_def emit_eq)

lemma emit_terminal_gap_Inr_wpm:
  assumes "emit_terminal_gap sigma st = Inr st'"
  shows "(\<exists>w. current_wpm st = Some w \<and> w \<noteq> 0) \<and> 0 \<le> sigma"
proof -
  from assms obtain u k l g where "emit u k l sigma (st\<lparr>rand := g\<rparr>) = Inr st'"
    by (auto simp: emit_terminal_gap_def random_random_def split: if_splits)
  from emit_Inr_wpm[OF this] show ?thesis by simp
qed

lemma emit_pattern_wpm:
  "emit_pattern sigma len js st = Inr st' \<Longrightarrow> current_wpm st' = current_wpm st"
proof (induction js arbitrary: st)
  case Nil
  then show ?case by simp
next
  case (Cons a rest)
  obtain j symbol where a: "a = (j, symbol)" by (cases a)
  have keep: "\<And>u k l s s'. emit u k l sigma s = Inr s' \<Longrightarrow> current_wpm s' = current_wpm s"
    by (auto simp: emit_def split: option.splits sum.splits prod.splits)
  from Cons.prems a obtain st1 where
    st1: "(if symbol = CHR ''.'' then emit DIT_UNITS 1 0 sigma st
            else emit DAH_UNITS 1 1 sigma st) = Inr st1"
    by (auto split: sum.splits)
  then have w1: "current_wpm st1 = current_wpm st"
    by (auto split: if_splits dest: keep)
  show ?case
  proof (cases "int j < int len - 1")
    case True
    with Cons.prems a st1 obtain st2 where
      st2: "emit ELEMENT_GAP 0 2 sigma st1 = Inr st2"
      and r: "emit_pattern sigma len rest st2 = Inr st'"
      by (auto split: sum.splits)
    from Cons.IH[OF r] keep[OF st2] w1 show ?thesis by simp
  next
    case False
    with Cons.prems a st1 have r: "emit_pattern sigma len rest st1 = Inr st'"
      by (auto split: sum.splits)
    from Cons.IH[OF r] w1 show ?thesis by simp
  qed
qed

lemma sequence_body_eq:
  fixes st :: gen_state and i :: nat and wr :: "real \<times> real"
  defines "st1 \<equiv> resample_wpm 50 i wr st"
  defines "pattern \<equiv> snd (morse_code ! (choices (rand st) (c_pos (rand st)) mod length morse_code))"
  assumes "current_wpm st1 = Some w" and "w \<noteq> 0" and "0 \<le> sigma"
  shows "sequence_body wr sigma i st =
           Inr (st1\<lparr>data := data st @ jittered_rows w sigma (normals (rand st)) (n_pos (rand st))
                             (pulse_plan pattern @
                              [if uniforms (rand st1) (u_pos (rand st1)) < 0.25
                               then (WORD_GAP, 0, 4) else (LETTER_GAP, 0, 3)]),
                    rand := (rand st1)\<lparr>c_pos := Suc (c_pos (rand st)),
                                       u_pos := Suc (u_pos (rand st1)),
                                       n_pos := n_pos (rand st) + 2 * length pattern\<rparr>\<rparr>)"
proof -
  let ?k = "choices (rand st) (c_pos (rand st)) mod length morse_code"
  have k: "?k < length morse_code" by (simp add: morse_code_length)
  let ?g = "(rand st1)\<lparr>c_pos := Suc (c_pos (rand st1))\<rparr>"
  have ch: "random_choice (map fst morse_code) (rand st1) = Inr (map fst morse_code ! ?k, ?g)"
    by (simp add: random_choice_def st1_def resample_wpm_rand morse_code_length)
       (simp add: morse_code_def)
  have lk: "map_of morse_code (map fst morse_code ! ?k) = Some pattern"
    unfolding pattern_def by (rule morse_code_lookup[OF k])
  have ne: "pattern \<noteq> []"
    unfolding pattern_def using morse_code_nonempty k by (simp add: nth_mem)
  let ?s = "st1\<lparr>rand := ?g\<rparr>"
  have ws: "current_wpm ?s = Some w" using assms(3) by simp
  note ep = emit_pattern_eq[OF ws assms(4) _ assms(5), of 0 pattern "length pattern", simplified]
  let ?s2 = "?s\<lparr>data := data ?s @ jittered_rows w sigma (normals (rand ?s)) (n_pos (rand ?s)) (pulse_plan pattern),
                rand := (rand ?s)\<lparr>n_pos := n_pos (rand ?s) + length (pulse_plan pattern)\<rparr>\<rparr>"
  have ws2: "current_wpm ?s2 = Some w" using assms(3) by simp
  note et = emit_terminal_gap_eq[OF ws2 assms(4,5)]
  have "sequence_body wr sigma i st = emit_terminal_gap sigma ?s2"
    unfolding sequence_body_def Let_def st1_def[symmetric]
    using ch lk ep by simp
  also note et
  finally show ?thesis
    using pulse_plan_length[OF ne]
    by (simp add: jittered_rows_append st1_def resample_wpm_rand)
qed

lemma jittered_rows_count_label:
  "length (filter (\<lambda>e. label e = c) (jittered_rows w s zs n plan))
     = length (filter (\<lambda>p. snd (snd p) = c) plan)"
  by (induction plan arbitrary: n) auto

lemma jittered_rows_pulses:
  "map label (filter (\<lambda>e. is_key_down e = 1) (jittered_rows w s zs n plan))
     = map (\<lambda>p. snd (snd p)) (filter (\<lambda>p. fst (snd p) = 1) plan)"
  by (induction plan arbitrary: n) auto

text \<open>
  With a speed range of positive numbers, uniform draws that are not negative and a sigma
  that is not negative, neither generator raises: no division by zero, no unknown
  character, no unassigned speed, no negative scale.
\<close>

lemma dataset_body_returns:
  fixes st :: gen_state
  assumes "0 < fst wr" and "fst wr \<le> snd wr" and "\<forall>n. 0 \<le> uniforms (rand st) n"
    and "i = 0 \<or> (\<exists>w>0. current_wpm st = Some w)" and "0 \<le> sigma"
  shows "\<exists>st'. dataset_body wr sigma i st = Inr st' \<and> uniforms (rand st') = uniforms (rand st)
           \<and> (\<exists>w>0. current_wpm st' = Some w)"
proof -
  let ?st1 = "resample_wpm 100 i wr st"
  have "0 \<le> (snd wr - fst wr) * uniforms (rand st) (u_pos (rand st))"
    using assms(2,3) by simp
  with assms(1) have pos: "0 < fst wr + (snd wr - fst wr) * uniforms (rand st) (u_pos (rand st))"
    by linarith
  have "\<exists>w>0. current_wpm ?st1 = Some w"
  proof (cases "i mod 100 = 0")
    case True
    with pos show ?thesis
      by (simp add: resample_wpm_def random_uniform_def random_random_def)
  next
    case False
    then have "i \<noteq> 0" by auto
    with assms(4) False show ?thesis by (simp add: resample_wpm_def)
  qed
  then obtain w where w: "current_wpm ?st1 = Some w" "0 < w" by blast
  obtain c g where cg: "random_random (rand ?st1) = (c, g)"
    by (cases "random_random (rand ?st1)")
  then have g: "uniforms g = uniforms (rand st)"
    by (auto simp: random_random_def resample_wpm_rand)
  obtain u k l where ukl: "choose_element c = (u, k, l)" by (cases "choose_element c")
  have w': "current_wpm (?st1\<lparr>rand := g\<rparr>) = Some w" using w by simp
  have w0: "w \<noteq> 0" using w by simp
  have "dataset_body wr sigma i st = emit u k l sigma (?st1\<lparr>rand := g\<rparr>)"
    using cg ukl by (simp add: dataset_body_def Let_def)
  then show ?thesis
    unfolding emit_eq[OF w' w0 assms(5)] using w g by simp
qed

lemma sequence_body_returns:
  fixes st :: gen_state
  assumes "0 < fst wr" and "fst wr \<le> snd wr" and "\<forall>n. 0 \<le> uniforms (rand st) n"
    and "i = 0 \<or> (\<exists>w>0. current_wpm st = Some w)" and "0 \<le> sigma"
  shows "\<exists>st'. sequence_body wr sigma i st = Inr st' \<and> uniforms (rand st') = uniforms (rand st)
           \<and> (\<exists>w>0. current_wpm st' = Some w)"
proof -
  let ?st1 = "resample_wpm 50 i wr st"
  have "0 \<le> (snd wr - fst wr) * uniforms (rand st) (u_pos (rand st))"
    using assms(2,3) by simp
  with assms(1) have pos: "0 < fst wr + (snd wr - fst wr) * uniforms (rand st) (u_pos (rand st))"
    by linarith
  have "\<exists>w>0. current_wpm ?st1 = Some w"
  proof (cases "i mod 50 = 0")
    case True
    with pos show ?thesis
      by (simp add: resample_wpm_def random_uniform_def random_random_def)
  next
    case False
    then have "i \<noteq> 0" by auto
    with assms(4) False show ?thesis by (simp add: resample_wpm_def)
  qed
  then obtain w where w: "current_wpm ?st1 = Some w" "0 < w" by blast
  have w0: "w \<noteq> 0" using w by simp
  show ?thesis
    unfolding sequence_body_eq[OF w(1) w0 assms(5)] using w by (simp add: resample_wpm_rand)
qed

lemma generators_return:
  assumes "0 < fst wr" and "fst wr \<le> snd wr" and "\<forall>n. 0 \<le> uniforms g n"
    and "0 \<le> sigma"
  shows "(\<exists>df. generate_morse_dataset_v3 n wr sigma g = Inr df)
         \<and> (\<exists>df. generate_sequence_based_data_v3 n wr sigma g = Inr df)"
proof -
  let ?P = "\<lambda>i (t::gen_state). uniforms (rand t) = uniforms g
              \<and> (i = 0 \<or> (\<exists>w>0. current_wpm t = Some w))"
  have p0: "?P 0 (start_state g)" by (simp add: start_state_def)
  have a: "\<exists>s'. for_range (dataset_body wr sigma) [0..<n] (start_state g) = Inr s' \<and> ?P n s'"
  proof (rule for_range_upt[where P = ?P, OF p0])
    fix i :: nat and t :: gen_state assume "?P i t"
    then show "\<exists>t'. dataset_body wr sigma i t = Inr t' \<and> ?P (Suc i) t'"
      using dataset_body_returns[OF assms(1,2) _ _ assms(4), of t i] assms(3) by auto
  qed simp
  have b: "\<exists>s'. for_range (sequence_body wr sigma) [0..<n] (start_state g) = Inr s' \<and> ?P n s'"
  proof (rule for_range_upt[where P = ?P, OF p0])
    fix i :: nat and t :: gen_state assume "?P i t"
    then show "\<exists>t'. sequence_body wr sigma i t = Inr t' \<and> ?P (Suc i) t'"
      using sequence_body_returns[OF assms(1,2) _ _ assms(4), of t i] assms(3) by auto
  qed simp
  from a b show ?thesis
    by (auto simp: generate_morse_dataset_v3_def generate_sequence_based_data_v3_def)
qed

subsection \<open>Evaluations\<close>

lemma sequence_body_O:
  "map_sum id data (sequence_body (20, 20) JITTER_SIGMA 0 (start_state (list_rng [0.5, 0.5] [14] []))) =
     Inr [\<lparr>duration_ms = 180, is_key_down = 1, label = 1\<rparr>,
          \<lparr>duration_ms = 60, is_key_down = 0, label = 2\<rparr>,
          \<lparr>duration_ms = 180, is_key_down = 1, label = 1\<rparr>,
          \<lparr>duration_ms = 60, is_key_down = 0, label = 2\<rparr>,
          \<lparr>duration_ms = 180, is_key_down = 1, label = 1\<rparr>,
          \<lparr>duration_ms = 180, is_key_down = 0, label = 3\<rparr>]"
  by (simp add: sequence_body_def resample_wpm_def random_uniform_def random_random_def
      random_choice_def start_state_def list_rng_def morse_code_def emit_terminal_gap_def
      emit_def dit_to_milliseconds_def wpm_to_dit_duration_def apply_human_jitter_def
      np_random_normal_def standard_normal_def JITTER_SIGMA_def DIT_UNITS_def DAH_UNITS_def ELEMENT_GAP_def
      LETTER_GAP_def WORD_GAP_def)

text \<open>The letter E (\<open>.\<close>, entry 4): one Dit and the terminal gap, no ElementGap.\<close>

lemma sequence_body_E:
  "map_sum id data (sequence_body (20, 20) JITTER_SIGMA 0 (start_state (list_rng [0.5, 0.1] [4] []))) =
     Inr [\<lparr>duration_ms = 60, is_key_down = 1, label = 0\<rparr>,
          \<lparr>duration_ms = 420, is_key_down = 0, label = 4\<rparr>]"
  by (simp add: sequence_body_def resample_wpm_def random_uniform_def random_random_def
      random_choice_def start_state_def list_rng_def morse_code_def emit_terminal_gap_def
      emit_def dit_to_milliseconds_def wpm_to_dit_duration_def apply_human_jitter_def
      np_random_normal_def standard_normal_def JITTER_SIGMA_def DIT_UNITS_def DAH_UNITS_def ELEMENT_GAP_def
      LETTER_GAP_def WORD_GAP_def)

lemma dataset_eval_2:
  "generate_morse_dataset_v3 2 (20, 20) JITTER_SIGMA (list_rng [0.5, 0.1, 0.9] [] []) =
     Inr [\<lparr>duration_ms = 60, is_key_down = 1, label = 0\<rparr>,
          \<lparr>duration_ms = 420, is_key_down = 0, label = 4\<rparr>]"
  by (simp add: generate_morse_dataset_v3_def start_state_def dataset_body_def resample_wpm_def
      random_uniform_def random_random_def list_rng_def choose_element_def
      emit_def dit_to_milliseconds_def wpm_to_dit_duration_def apply_human_jitter_def
      np_random_normal_def standard_normal_def JITTER_SIGMA_def DIT_UNITS_def DAH_UNITS_def ELEMENT_GAP_def
      LETTER_GAP_def WORD_GAP_def upt_conv_Cons numeral_2_eq_2)

subsection \<open>The claims about the version 3 generators\<close>

text \<open>
  C3. Every row of a table returned by either version 3 generator has \<open>is_key_down = 1\<close>
  exactly when its label is 0 (Dit) or 1 (Dah), and \<open>is_key_down = 0\<close> exactly when its
  label is one of the three gap labels 2, 3, 4.
\<close>

theorem key_state_matches_label:
  assumes "generate_morse_dataset_v3 n wpm_range sigma g = Inr df
           \<or> generate_sequence_based_data_v3 n wpm_range sigma g = Inr df"
    and "e \<in> set df"
  shows "((is_key_down e = 1) = (label e = 0 \<or> label e = 1))
         \<and> ((is_key_down e = 0) = (label e = 2 \<or> label e = 3 \<or> label e = 4))
         \<and> (is_key_down e = 0 \<or> is_key_down e = 1)"
  using generators_well_formed[OF assms(1)] assms(2)
  by (auto simp: well_formed_row_def)

theorem key_state_matches_label_witness:
  "generate_morse_dataset_v3 2 (20, 20) JITTER_SIGMA (list_rng [0.5, 0.1, 0.9] [] []) =
     Inr [\<lparr>duration_ms = 60, is_key_down = 1, label = 0\<rparr>,
          \<lparr>duration_ms = 420, is_key_down = 0, label = 4\<rparr>]
   \<and> (is_key_down \<lparr>duration_ms = 420, is_key_down = 0, label = 4\<rparr> = 1)
       = (label \<lparr>duration_ms = 420, is_key_down = 0, label = 4\<rparr> = 0
          \<or> label \<lparr>duration_ms = 420, is_key_down = 0, label = 4\<rparr> = 1)
   \<and> (\<exists>df. generate_sequence_based_data_v3 1 (20, 20) JITTER_SIGMA
               (list_rng [0.5, 0.5] [14] []) = Inr df
          \<and> map is_key_down df = [1, 0, 1, 0, 1, 0] \<and> map label df = [1, 2, 1, 2, 1, 3])"
proof -
  have a: "generate_morse_dataset_v3 2 (20, 20) JITTER_SIGMA (list_rng [0.5, 0.1, 0.9] [] []) =
     Inr [\<lparr>duration_ms = 60, is_key_down = 1, label = 0\<rparr>,
          \<lparr>duration_ms = 420, is_key_down = 0, label = 4\<rparr>]"
    by (rule dataset_eval_2)
  have b: "(is_key_down \<lparr>duration_ms = 420, is_key_down = 0, label = 4\<rparr> = 1)
       = (label \<lparr>duration_ms = 420, is_key_down = 0, label = 4\<rparr> = 0
          \<or> label \<lparr>duration_ms = 420, is_key_down = 0, label = 4\<rparr> = 1)"
    using key_state_matches_label[OF disjI1[OF a], of "\<lparr>duration_ms = 420, is_key_down = 0, label = 4\<rparr>"]
    by simp
  have c: "generate_sequence_based_data_v3 1 (20, 20) JITTER_SIGMA (list_rng [0.5, 0.5] [14] [])
        = Inr [\<lparr>duration_ms = 180, is_key_down = 1, label = 1\<rparr>,
          \<lparr>duration_ms = 60, is_key_down = 0, label = 2\<rparr>,
          \<lparr>duration_ms = 180, is_key_down = 1, label = 1\<rparr>,
          \<lparr>duration_ms = 60, is_key_down = 0, label = 2\<rparr>,
          \<lparr>duration_ms = 180, is_key_down = 1, label = 1\<rparr>,
          \<lparr>duration_ms = 180, is_key_down = 0, label = 3\<rparr>]"
    using sequence_body_O
    by (auto simp: generate_sequence_based_data_v3_def map_sum_def split: sum.splits)
  from a b c show ?thesis by simp
qed

text \<open>
  C6. One iteration of the character loop of \<open>generate_sequence_based_data_v3\<close> that does
  not raise appends, for the pattern of the chosen character (length k), exactly 2k rows:
  the rows of \<open>pulse_plan\<close> (the k pulses in pattern order, label 0 for a dot and 1 for a
  dash, with one ElementGap row between consecutive pulses and none after the last pulse,
  so k - 1 of them) and then one terminal gap, which is a WordGap (label 4) when the
  uniform draw is below 0.25 (probability 0.25) and a LetterGap (label 3) otherwise.
\<close>

theorem sequence_character_rows:
  assumes "sequence_body wr sigma i st = Inr st'"
  shows "let st1 = resample_wpm 50 i wr st;
             pattern = snd (morse_code ! (choices (rand st) (c_pos (rand st)) mod length morse_code));
             word = (uniforms (rand st1) (u_pos (rand st1)) < 0.25);
             rows = drop (length (data st)) (data st')
         in take (length (data st)) (data st') = data st \<and>
            (\<exists>w. current_wpm st1 = Some w \<and>
                 rows = jittered_rows w sigma (normals (rand st)) (n_pos (rand st))
                          (pulse_plan pattern @
                           [if word then (WORD_GAP, 0, 4) else (LETTER_GAP, 0, 3)])) \<and>
            length rows = 2 * length pattern \<and>
            map label (filter (\<lambda>e. is_key_down e = 1) rows)
              = map (\<lambda>s. if s = CHR ''.'' then 0 else 1) pattern \<and>
            length (filter (\<lambda>e. label e = 2) rows) = length pattern - 1 \<and>
            is_key_down (last rows) = 0 \<and>
            label (last rows) = (if word then 4 else 3)"
proof -
  define st1 where "st1 = resample_wpm 50 i wr st"
  define pattern where
    "pattern = snd (morse_code ! (choices (rand st) (c_pos (rand st)) mod length morse_code))"
  define word where "word = (uniforms (rand st1) (u_pos (rand st1)) < 0.25)"
  define plan where
    "plan = pulse_plan pattern @ [if word then (WORD_GAP, 0, 4) else (LETTER_GAP, 0, 3)]"
  from assms obtain g pat st2 where
    p: "emit_pattern sigma (length pat) (enumerate 0 pat) (st1\<lparr>rand := g\<rparr>) = Inr st2"
    and t: "emit_terminal_gap sigma st2 = Inr st'"
    unfolding sequence_body_def Let_def st1_def[symmetric]
    by (auto split: sum.splits option.splits prod.splits)
  from emit_terminal_gap_Inr_wpm[OF t] emit_pattern_wpm[OF p]
  obtain w where w: "current_wpm st1 = Some w" "w \<noteq> 0" and sg: "0 \<le> sigma" by auto
  have ne: "pattern \<noteq> []"
    unfolding pattern_def using morse_code_nonempty by (simp add: nth_mem morse_code_length)
  from sequence_body_eq[OF w[unfolded st1_def] sg] assms
  have d: "data st' = data st @ jittered_rows w sigma (normals (rand st)) (n_pos (rand st)) plan"
    unfolding plan_def word_def pattern_def st1_def by auto
  let ?rows = "jittered_rows w sigma (normals (rand st)) (n_pos (rand st)) plan"
  have len: "length ?rows = 2 * length pattern"
    using pulse_plan_length[OF ne] by (simp add: jittered_rows_length plan_def)
  have pl: "map label (filter (\<lambda>e. is_key_down e = 1) ?rows)
              = map (\<lambda>s. if s = CHR ''.'' then 0 else 1) pattern"
    by (simp add: jittered_rows_pulses plan_def pulse_plan_pulse_labels)
  have gaps: "length (filter (\<lambda>e. label e = 2) ?rows) = length pattern - 1"
    by (simp add: jittered_rows_count_label plan_def pulse_plan_gaps)
  have lst: "is_key_down (last ?rows) = 0 \<and> label (last ?rows) = (if word then 4 else 3)"
    by (simp add: plan_def jittered_rows_append)
  show ?thesis
    unfolding Let_def st1_def[symmetric] pattern_def[symmetric] word_def[symmetric]
    using d w(1) len pl gaps lst by (simp add: plan_def)
qed

text \<open>
  The letter O (\<open>---\<close>, entry 14 of the table): three Dahs with two ElementGaps between
  them and one terminal gap, six rows.
\<close>

theorem sequence_character_rows_witness:
  "\<exists>st'. sequence_body (20, 20) JITTER_SIGMA 0 (start_state (list_rng [0.5, 0.5] [14] [])) = Inr st'
     \<and> length (data st') = 6
     \<and> map label (filter (\<lambda>e. is_key_down e = 1) (data st')) = [1, 1, 1]
     \<and> length (filter (\<lambda>e. label e = 2) (data st')) = 2
     \<and> is_key_down (last (data st')) = 0
     \<and> label (last (data st')) = 3"
proof -
  from sequence_body_O obtain st' where
    h: "sequence_body (20, 20) JITTER_SIGMA 0 (start_state (list_rng [0.5, 0.5] [14] [])) = Inr st'"
    by (cases "sequence_body (20, 20) JITTER_SIGMA 0 (start_state (list_rng [0.5, 0.5] [14] []))")
       auto
  have p: "snd (morse_code ! (14 mod length morse_code)) = ''---''"
    by (simp add: morse_code_def)
  have u: "uniforms (rand (resample_wpm 50 0 (20, 20) (start_state (list_rng [0.5, 0.5] [14] []))))
             (u_pos (rand (resample_wpm 50 0 (20, 20) (start_state (list_rng [0.5, 0.5] [14] []))))) = 0.5"
    by (simp add: resample_wpm_def random_uniform_def random_random_def start_state_def list_rng_def)
  have c: "choices (rand (start_state (list_rng [0.5, 0.5] [14] [])))
             (c_pos (rand (start_state (list_rng [0.5, 0.5] [14] [])))) = 14"
    by (simp add: start_state_def list_rng_def)
  have d: "data (start_state (list_rng [0.5, 0.5] [14] [])) = []"
    by (simp add: start_state_def)
  from sequence_character_rows[OF h] h show ?thesis
    unfolding Let_def u c p d by auto
qed

text \<open>
  C7, as amended. For every base duration and every Gaussian draw, whatever
  \<open>apply_human_jitter\<close> of version 3 returns is at least 1.0 ms, and it returns for every
  sigma that is not negative (numpy refuses a negative scale). So every row of a table
  returned by either version 3 generator has a duration of at least 1.0 ms, hence positive.
\<close>

theorem apply_human_jitter_floor:
  "(apply_human_jitter duration sigma g = Inr (d, g1) \<longrightarrow> 1.0 \<le> d)
   \<and> (0 \<le> sigma \<longrightarrow> (\<exists>d g1. apply_human_jitter duration sigma g = Inr (d, g1) \<and> 1.0 \<le> d))
   \<and> ((generate_morse_dataset_v3 n wpm_range sigma' g' = Inr df
        \<or> generate_sequence_based_data_v3 n wpm_range sigma' g' = Inr df)
       \<longrightarrow> (\<forall>e\<in>set df. 1.0 \<le> duration_ms e \<and> 0 < duration_ms e))"
proof (intro conjI impI)
  assume "apply_human_jitter duration sigma g = Inr (d, g1)"
  then show "1.0 \<le> d"
    by (auto simp: apply_human_jitter_def np_random_normal_def standard_normal_def
        split: if_splits)
next
  assume "0 \<le> sigma"
  then show "\<exists>d g1. apply_human_jitter duration sigma g = Inr (d, g1) \<and> 1.0 \<le> d"
    by (simp add: apply_human_jitter_def np_random_normal_def standard_normal_def)
next
  assume "generate_morse_dataset_v3 n wpm_range sigma' g' = Inr df
        \<or> generate_sequence_based_data_v3 n wpm_range sigma' g' = Inr df"
  from generators_well_formed[OF this]
  show "\<forall>e\<in>set df. 1.0 \<le> duration_ms e \<and> 0 < duration_ms e"
    by (auto simp: well_formed_row_def)
qed

text \<open>
  A Gaussian draw 25 standard deviations below the mean makes the multiplier -1; the
  result is the floor, 1 ms.
\<close>

theorem apply_human_jitter_floor_witness:
  "apply_human_jitter 60 JITTER_SIGMA (list_rng [] [] [-25])
     = Inr (1, (list_rng [] [] [-25])\<lparr>n_pos := 1\<rparr>)
   \<and> generate_morse_dataset_v3 1 (20, 20) JITTER_SIGMA (list_rng [0.5, 0.1] [] [-25]) =
       Inr [\<lparr>duration_ms = 1, is_key_down = 1, label = 0\<rparr>]
   \<and> 1.0 \<le> duration_ms \<lparr>duration_ms = 1, is_key_down = 1, label = 0\<rparr>"
proof -
  have a: "apply_human_jitter 60 JITTER_SIGMA (list_rng [] [] [-25])
             = Inr (1, (list_rng [] [] [-25])\<lparr>n_pos := 1\<rparr>)"
    by (simp add: apply_human_jitter_def np_random_normal_def standard_normal_def list_rng_def
        JITTER_SIGMA_def)
  have b: "generate_morse_dataset_v3 1 (20, 20) JITTER_SIGMA (list_rng [0.5, 0.1] [] [-25]) =
       Inr [\<lparr>duration_ms = 1, is_key_down = 1, label = 0\<rparr>]"
    by (simp add: generate_morse_dataset_v3_def start_state_def dataset_body_def resample_wpm_def
      random_uniform_def random_random_def list_rng_def choose_element_def
      emit_def dit_to_milliseconds_def wpm_to_dit_duration_def apply_human_jitter_def
      np_random_normal_def standard_normal_def JITTER_SIGMA_def DIT_UNITS_def)
  have s: "(0::real) \<le> JITTER_SIGMA" by (simp add: JITTER_SIGMA_def)
  from apply_human_jitter_floor[of 60 JITTER_SIGMA "list_rng [] [] [-25]" 1
      "(list_rng [] [] [-25])\<lparr>n_pos := 1\<rparr>" 1 "(20, 20)" JITTER_SIGMA
      "list_rng [0.5, 0.1] [] [-25]" "[\<lparr>duration_ms = 1, is_key_down = 1, label = 0\<rparr>]"] a b s
  have "1.0 \<le> duration_ms \<lparr>duration_ms = 1, is_key_down = 1, label = 0\<rparr>"
    by simp
  with a b show ?thesis by simp
qed

section \<open>Properties of the ratio validator\<close>







lemma validate_without_dah:
  assumes "0 < n"
  shows "validate_timing_standards (replicate n dit_60) = Inl (KeyError 1)"
  using assms
  by (simp add: validate_timing_standards_def compute_results_def label_durations_def
      dit_60_def Let_def)

text \<open>
  The validator returns exactly when each of the labels 0, 1, 3 and 4 has a row; a table
  without ElementGap rows (label 2) is handled.
\<close>

lemma compute_results_Some_iff:
  assumes "0 \<le> l" and "l < 5"
  shows "(\<exists>r. compute_results df l = Some r) \<longleftrightarrow> (\<exists>e\<in>set df. label e = l)"
  using assms
  by (auto simp: compute_results_def label_durations_def filter_empty_conv)

lemma validate_returns_iff:
  "(\<exists>rep. validate_timing_standards df = Inr rep) \<longleftrightarrow>
     ((\<exists>e\<in>set df. label e = 0) \<and> (\<exists>e\<in>set df. label e = 1)
      \<and> (\<exists>e\<in>set df. label e = 3) \<and> (\<exists>e\<in>set df. label e = 4))"
proof -
  have c: "\<And>l. 0 \<le> l \<Longrightarrow> l < 5 \<Longrightarrow>
             (compute_results df l = None) = (\<not> (\<exists>e\<in>set df. label e = l))"
    using compute_results_Some_iff[of _ df] by (metis not_Some_eq)
  show ?thesis
    unfolding validate_timing_standards_def Let_def
    using c[of 0] c[of 1] c[of 3] c[of 4]
    by (auto split: option.splits)
qed



subsection \<open>The claims about the validator\<close>




text \<open>
  C9. The validator on a table without a Dah: the statistics loop skips the absent label,
  and the ratio report then reads \<open>results[1]\<close> and raises \<open>KeyError\<close>. On the empty table
  it raises on \<open>results[0]\<close>.
\<close>

theorem validate_raises_on_missing_class:
  "generate_morse_dataset_v3 1 (20, 20) JITTER_SIGMA (list_rng [0.5, 0.1] [] []) = Inr [dit_60]
   \<and> validate_timing_standards [dit_60] = Inl (KeyError 1)
   \<and> validate_timing_standards [] = Inl (KeyError 0)"
proof -
  have "generate_morse_dataset_v3 1 (20, 20) JITTER_SIGMA (list_rng [0.5, 0.1] [] []) = Inr [dit_60]"
    by (simp add: generate_morse_dataset_v3_def start_state_def dataset_body_def resample_wpm_def
      random_uniform_def random_random_def list_rng_def choose_element_def
      emit_def dit_to_milliseconds_def wpm_to_dit_duration_def apply_human_jitter_def
      np_random_normal_def standard_normal_def JITTER_SIGMA_def DIT_UNITS_def dit_60_def)
  moreover have "validate_timing_standards [dit_60] = Inl (KeyError 1)"
    using validate_without_dah[of 1] by simp
  moreover have "validate_timing_standards [] = Inl (KeyError 0)"
    by (simp add: validate_timing_standards_def compute_results_def label_durations_def Let_def)
  ultimately show ?thesis by simp
qed

section \<open>Properties of the sequence window builder\<close>

lemma create_sequences_loop:
  assumes "\<forall>i\<in>set idx. i + seq_len < length y"
  shows "for_range (create_sequences_body X y seq_len) idx acc =
           Inr (fst acc @ map (\<lambda>i. take seq_len (drop i X)) idx,
                snd acc @ map (\<lambda>i. y ! (i + seq_len)) idx)"
  using assms
  by (induction idx arbitrary: acc) (auto simp: create_sequences_body_def)

lemma create_sequences_eq:
  assumes "length y = length X"
  shows "create_sequences X y L =
           Inr (map (\<lambda>i. take L (drop i X)) [0..<length X - L],
                map (\<lambda>i. y ! (i + L)) [0..<length X - L])"
proof -
  have n: "nat (int (length X) - int L) = length X - L" by simp
  have "\<forall>i\<in>set [0..<length X - L]. i + L < length y" using assms by auto
  from create_sequences_loop[OF this, of X "([], [])"] show ?thesis
    by (simp add: create_sequences_def n)
qed

lemma prepare_sequence_data_eq:
  assumes "length y_train = length X_train" and "length y_test = length X_test"
  shows "prepare_sequence_data X_train X_test y_train y_test L =
           Inr (map (\<lambda>i. take L (drop i X_train)) [0..<length X_train - L],
                map (\<lambda>i. take L (drop i X_test)) [0..<length X_test - L],
                map (\<lambda>i. y_train ! (i + L)) [0..<length X_train - L],
                map (\<lambda>i. y_test ! (i + L)) [0..<length X_test - L])"
  by (simp add: prepare_sequence_data_def create_sequences_eq[OF assms(1)]
      create_sequences_eq[OF assms(2)])

text \<open>
  A stream whose labels are fewer than its feature vectors makes \<open>y[i+seq_len]\<close> raise:
  the builder returns nothing for either stream.
\<close>

lemma prepare_sequence_data_short_labels:
  "prepare_sequence_data [1, 2, 3 :: int] [1 :: int] [0, 0 :: int] [0 :: int] 1 = Inl IndexError"
  by (simp add: prepare_sequence_data_def create_sequences_def create_sequences_body_def
      upt_conv_Cons)

text \<open>
  C4. \<open>prepare_sequence_data\<close> is the window builder: it applies \<open>create_sequences\<close> to the
  training stream \<open>X_train\<close> with its labels \<open>y_train\<close> and to the test stream \<open>X_test\<close>
  with its labels \<open>y_test\<close>, and returns the windows of both before the targets of both.
  For each stream, of N feature vectors \<open>X\<close> with its N labels \<open>y\<close>, and a window length L
  it does not raise and returns exactly N - L windows and N - L targets, paired by
  position: window i is the slice of positions [i, i + L) of that stream and its target
  is the label at position i + L of the same stream. A stream with N \<le> L gives no window
  and no target. The result is a function of the four arguments and \<open>L\<close> alone (no random
  state is read).
\<close>

theorem window_builder_contract:
  assumes "length y_train = length X_train" and "length y_test = length X_test"
  shows "\<exists>train_ws test_ws train_ts test_ts.
           prepare_sequence_data X_train X_test y_train y_test L
             = Inr (train_ws, test_ws, train_ts, test_ts)
           \<and> length train_ws = length X_train - L \<and> length train_ts = length X_train - L
           \<and> (\<forall>i<length X_train - L.
                 train_ws ! i = take L (drop i X_train) \<and> length (train_ws ! i) = L
                 \<and> (\<forall>j<L. train_ws ! i ! j = X_train ! (i + j))
                 \<and> train_ts ! i = y_train ! (i + L))
           \<and> (length X_train \<le> L \<longrightarrow> train_ws = [] \<and> train_ts = [])
           \<and> length test_ws = length X_test - L \<and> length test_ts = length X_test - L
           \<and> (\<forall>i<length X_test - L.
                 test_ws ! i = take L (drop i X_test) \<and> length (test_ws ! i) = L
                 \<and> (\<forall>j<L. test_ws ! i ! j = X_test ! (i + j))
                 \<and> test_ts ! i = y_test ! (i + L))
           \<and> (length X_test \<le> L \<longrightarrow> test_ws = [] \<and> test_ts = [])"
  unfolding prepare_sequence_data_eq[OF assms]
  by (auto simp: min_def)

text \<open>
  A training stream of length 5 and a test stream of length 4 with L = 3 give two windows
  and one window; a test stream of length 2 gives none, and the training windows are
  returned all the same.
\<close>

theorem window_builder_contract_witness:
  "prepare_sequence_data [10, 11, 12, 13, 14 :: int] [20, 21, 22, 23] [0, 1, 2, 3, 4 :: int]
       [5, 6, 7, 8] 3
     = Inr ([[10, 11, 12], [11, 12, 13]], [[20, 21, 22]], [3, 4], [8])
   \<and> prepare_sequence_data [10, 11, 12, 13, 14 :: int] [20, 21] [0, 1, 2, 3, 4 :: int] [5, 6] 3
     = Inr ([[10, 11, 12], [11, 12, 13]], [], [3, 4], [])"
proof -
  have a: "length [0, 1, 2, 3, 4 :: int] = length [10, 11, 12, 13, 14 :: int]" by simp
  have b: "length [5, 6, 7, 8 :: int] = length [20, 21, 22, 23 :: int]" by simp
  have c: "length [5, 6 :: int] = length [20, 21 :: int]" by simp
  from window_builder_contract[OF a b, of 3] window_builder_contract[OF a c, of 3]
  show ?thesis
    by (simp add: prepare_sequence_data_eq upt_conv_Cons)
qed

section \<open>Properties of the version 2 generators\<close>

text \<open>The \<open>jitter\<close> of version 2 is the product with \<open>np.random.normal(1.0, 0.08)\<close>.\<close>

lemma jitter_is_np_random_normal:
  "\<exists>sample g'. np_random_normal 1.0 0.08 g = Inr (sample, g') \<and> jitter x g = (x * sample, g')"
  by (simp add: np_random_normal_def standard_normal_def jitter_def)

lemma jittered_rows_v2_append:
  "jittered_rows_v2 cd zs n (p @ q) = jittered_rows_v2 cd zs n p @ jittered_rows_v2 cd zs (n + length p) q"
  by (induction p arbitrary: n) auto

lemma jittered_rows_v2_labels:
  "map label (jittered_rows_v2 cd zs n plan) = map (\<lambda>p. snd (snd p)) plan"
  by (induction plan arbitrary: n) auto

lemma append_row_eq:
  assumes "x = units * cd"
  shows "append_row x k l st =
     (fst st @ jittered_rows_v2 cd (normals (snd st)) (n_pos (snd st)) [(units, k, l)],
      (snd st)\<lparr>n_pos := Suc (n_pos (snd st))\<rparr>)"
  using assms by (simp add: append_row_def jitter_def standard_normal_def)

lemma emit_pattern_v2_eq:
  assumes "j0 + length pat = len"
  shows "emit_pattern_v2 cd (cd * 3) len (enumerate j0 pat) st =
           (fst st @ jittered_rows_v2 cd (normals (snd st)) (n_pos (snd st)) (pulse_plan pat),
            (snd st)\<lparr>n_pos := n_pos (snd st) + length (pulse_plan pat)\<rparr>)"
  using assms
proof (induction pat arbitrary: st j0 rule: pulse_plan.induct)
  case 1
  then show ?case by simp
next
  case (2 s)
  have "(if s = CHR ''.'' then append_row cd 1 0 st else append_row (cd * 3) 1 1 st)
          = (fst st @ jittered_rows_v2 cd (normals (snd st)) (n_pos (snd st)) [pulse s],
             (snd st)\<lparr>n_pos := Suc (n_pos (snd st))\<rparr>)"
    by (simp add: pulse_def DIT_UNITS_def DAH_UNITS_def append_row_eq[where units = 1 and cd = cd]
        append_row_eq[where units = 3 and cd = cd])
  with 2 show ?case by (simp add: Let_def del: jittered_rows_v2.simps)
next
  case (3 s t rest)
  let ?st1 = "(fst st @ jittered_rows_v2 cd (normals (snd st)) (n_pos (snd st)) [pulse s],
             (snd st)\<lparr>n_pos := Suc (n_pos (snd st))\<rparr>)"
  let ?st2 = "(fst ?st1 @ jittered_rows_v2 cd (normals (snd ?st1)) (n_pos (snd ?st1)) [(ELEMENT_GAP, 0, 2)],
             (snd ?st1)\<lparr>n_pos := Suc (n_pos (snd ?st1))\<rparr>)"
  have e1: "(if s = CHR ''.'' then append_row cd 1 0 st else append_row (cd * 3) 1 1 st) = ?st1"
    by (simp add: pulse_def DIT_UNITS_def DAH_UNITS_def append_row_eq[where units = 1 and cd = cd]
        append_row_eq[where units = 3 and cd = cd])
  have e2: "append_row cd 0 2 ?st1 = ?st2"
    by (simp add: ELEMENT_GAP_def append_row_eq[where units = 1 and cd = cd])
  have len: "Suc j0 + length (t # rest) = len" using "3.prems" by simp
  have lt: "int j0 < int len - 1" using "3.prems" by auto
  have "emit_pattern_v2 cd (cd * 3) len (enumerate j0 (s # t # rest)) st
          = emit_pattern_v2 cd (cd * 3) len (enumerate (Suc j0) (t # rest)) ?st2"
    using e1 e2 lt by (simp add: Let_def del: jittered_rows_v2.simps)
  also note "3.IH"[OF len]
  finally show ?case by (simp add: pulse_def)
qed

lemma terminal_gap_v2_eq:
  "terminal_gap_v2 cd st =
     (fst st @ jittered_rows_v2 cd (normals (snd st)) (n_pos (snd st))
                 [if uniforms (snd st) (u_pos (snd st)) < 0.3 then (7, 0, 3) else (3, 0, 2)],
      (snd st)\<lparr>u_pos := Suc (u_pos (snd st)), n_pos := Suc (n_pos (snd st))\<rparr>)"
  by (simp add: terminal_gap_v2_def random_random_def
      append_row_eq[where units = 7 and cd = cd] append_row_eq[where units = 3 and cd = cd])

lemma sequence_body_v2_eq:
  "sequence_body_v2 base i (rows, g) =
     Inr (rows @ jittered_rows_v2 (base * (0.8 + (1.2 - 0.8) * uniforms g (u_pos g)))
                   (normals g) (n_pos g)
                   (pulse_plan (snd (morse_code ! (choices g (c_pos g) mod length morse_code))) @
                    [if uniforms g (Suc (u_pos g)) < 0.3 then (7, 0, 3) else (3, 0, 2)]),
          g\<lparr>c_pos := Suc (c_pos g), u_pos := Suc (Suc (u_pos g)),
            n_pos := n_pos g +
               2 * length (snd (morse_code ! (choices g (c_pos g) mod length morse_code)))\<rparr>)"
proof -
  let ?k = "choices g (c_pos g) mod length morse_code"
  let ?pattern = "snd (morse_code ! ?k)"
  have k: "?k < length morse_code" by (simp add: morse_code_length)
  have ch: "random_choice (map fst morse_code) g =
              Inr (map fst morse_code ! ?k, g\<lparr>c_pos := Suc (c_pos g)\<rparr>)"
    by (simp add: random_choice_def morse_code_length) (simp add: morse_code_def)
  have lk: "map_of morse_code (map fst morse_code ! ?k) = Some ?pattern"
    by (rule morse_code_lookup[OF k])
  have ne: "?pattern \<noteq> []"
    using morse_code_nonempty k by (simp add: nth_mem)
  have ep: "\<And>cd st. emit_pattern_v2 cd (cd * 3) (length ?pattern) (enumerate 0 ?pattern) st =
           (fst st @ jittered_rows_v2 cd (normals (snd st)) (n_pos (snd st)) (pulse_plan ?pattern),
            (snd st)\<lparr>n_pos := n_pos (snd st) + length (pulse_plan ?pattern)\<rparr>)"
    by (rule emit_pattern_v2_eq) simp
  show ?thesis
    unfolding sequence_body_v2_def
    using pulse_plan_length[OF ne]
    by (simp add: ch lk random_uniform_def random_random_def Let_def
        ep terminal_gap_v2_eq jittered_rows_v2_append
        del: jittered_rows_v2.simps)
qed

lemma pulse_plan_labels: "\<forall>p\<in>set (pulse_plan pat). snd (snd p) = 0 \<or> snd (snd p) = 1 \<or> snd (snd p) = 2"
  by (induction pat rule: pulse_plan.induct) (auto simp: pulse_def)

lemma sequence_body_v2_labels:
  assumes "\<forall>e\<in>set (fst st). label e = 0 \<or> label e = 1 \<or> label e = 2 \<or> label e = 3"
  shows "\<exists>st'. sequence_body_v2 base i st = Inr st' \<and>
           (\<forall>e\<in>set (fst st'). label e = 0 \<or> label e = 1 \<or> label e = 2 \<or> label e = 3)"
proof -
  obtain rows g where st: "st = (rows, g)" by (cases st)
  let ?plan = "pulse_plan (snd (morse_code ! (choices g (c_pos g) mod length morse_code))) @
                    [if uniforms g (Suc (u_pos g)) < 0.3 then (7, 0, 3) else (3, 0, 2)]"
  have "\<forall>l\<in>set (map (\<lambda>p. snd (snd p)) ?plan). l = 0 \<or> l = 1 \<or> l = 2 \<or> l = (3::int)"
    using pulse_plan_labels by auto
  then have "\<forall>l\<in>set (map label (jittered_rows_v2 (base * (0.8 + (1.2 - 0.8) * uniforms g (u_pos g)))
                   (normals g) (n_pos g) ?plan)). l = 0 \<or> l = 1 \<or> l = 2 \<or> l = 3"
    by (simp only: jittered_rows_v2_labels)
  then show ?thesis
    using assms unfolding st sequence_body_v2_eq by auto
qed

text \<open>
  C10. In the version 2 character generator, the rows appended for one character are the
  pulses of its pattern with a 1-unit gap of label 2 between consecutive pulses, and then
  the gap that ends the character: 7 dit units with label 3 when the uniform draw is below
  0.3 (probability 0.3), and otherwise 3 dit units with label 2, the label of the 1-unit
  gaps. The generator never raises and every label of its table is 0, 1, 2 or 3: there is
  no label of its own for the gap between letters.
\<close>

theorem v2_character_gap_labelled_2:
  "map_sum id fst (sequence_body_v2 base_dit_ms i (rows, g)) =
     Inr (rows @ jittered_rows_v2 (base_dit_ms * (0.8 + (1.2 - 0.8) * uniforms g (u_pos g)))
                   (normals g) (n_pos g)
                   (pulse_plan (snd (morse_code ! (choices g (c_pos g) mod length morse_code))) @
                    [if uniforms g (Suc (u_pos g)) < 0.3 then (7, 0, 3) else (3, 0, 2)]))
   \<and> (\<exists>df. generate_sequence_based_data n base_dit_ms g = Inr df \<and>
          (\<forall>e\<in>set df. label e = 0 \<or> label e = 1 \<or> label e = 2 \<or> label e = 3))"
proof
  show "map_sum id fst (sequence_body_v2 base_dit_ms i (rows, g)) =
     Inr (rows @ jittered_rows_v2 (base_dit_ms * (0.8 + (1.2 - 0.8) * uniforms g (u_pos g)))
                   (normals g) (n_pos g)
                   (pulse_plan (snd (morse_code ! (choices g (c_pos g) mod length morse_code))) @
                    [if uniforms g (Suc (u_pos g)) < 0.3 then (7, 0, 3) else (3, 0, 2)]))"
    by (simp only: sequence_body_v2_eq map_sum.simps id_apply fst_conv)
next
  have "\<exists>s'. for_range (sequence_body_v2 base_dit_ms) [0..<n] ([], g) = Inr s' \<and>
          (\<forall>e\<in>set (fst s'). label e = 0 \<or> label e = 1 \<or> label e = 2 \<or> label e = 3)"
    by (rule for_range_total) (simp, rule sequence_body_v2_labels)
  then show "\<exists>df. generate_sequence_based_data n base_dit_ms g = Inr df \<and>
          (\<forall>e\<in>set df. label e = 0 \<or> label e = 1 \<or> label e = 2 \<or> label e = 3)"
    by (auto simp: generate_sequence_based_data_def)
qed

text \<open>
  The letter A (\<open>.-\<close>) at 100 ms per dit without jitter: the gap inside the letter (100 ms)
  and the gap after it (300 ms) both carry label 2.
\<close>

theorem v2_character_gap_labelled_2_witness:
  "generate_sequence_based_data 1 100 (list_rng [0.5, 0.5] [0] []) =
     Inr [\<lparr>duration_ms = 100, is_key_down = 1, label = 0\<rparr>,
          \<lparr>duration_ms = 100, is_key_down = 0, label = 2\<rparr>,
          \<lparr>duration_ms = 300, is_key_down = 1, label = 1\<rparr>,
          \<lparr>duration_ms = 300, is_key_down = 0, label = 2\<rparr>]"
proof -
  have "map_sum id fst (sequence_body_v2 100 0 ([], list_rng [0.5, 0.5] [0] [])) =
     Inr [\<lparr>duration_ms = 100, is_key_down = 1, label = 0\<rparr>,
          \<lparr>duration_ms = 100, is_key_down = 0, label = 2\<rparr>,
          \<lparr>duration_ms = 300, is_key_down = 1, label = 1\<rparr>,
          \<lparr>duration_ms = 300, is_key_down = 0, label = 2\<rparr>]"
    using v2_character_gap_labelled_2[of 100 0 "[]" "list_rng [0.5, 0.5] [0] []" 0]
    by (simp add: list_rng_def morse_code_def pulse_def DIT_UNITS_def DAH_UNITS_def
        ELEMENT_GAP_def)
  then show ?thesis
    by (auto simp: generate_sequence_based_data_def split: sum.splits)
qed

text \<open>
  C7, as stated, fails on version 2. The \<open>jitter\<close> of version 2 has no floor: a base
  duration of 0.5 ms with a multiplier of exactly 1 stays 0.5 ms, below 1.0 ms, and with a
  Gaussian draw 25 standard deviations below the mean the multiplier is -1 and the
  generated row has a negative duration.
\<close>

theorem v2_jitter_not_floored:
  "fst (jitter 0.5 (list_rng [] [] [0])) = 0.5
   \<and> generate_morse_dataset_v2 1 100 (list_rng [0.5, 0.5] [] [-25]) =
       Inr [\<lparr>duration_ms = - 100, is_key_down = 0, label = 2\<rparr>]"
  by (simp add: generate_morse_dataset_v2_def dataset_body_v2_def random_uniform_def
      random_random_def list_rng_def append_row_def jitter_def standard_normal_def)

section \<open>Properties of the training loop controller\<close>

lemmas trainer_defs =
  train_model_def initial_train_state_def restore_best_def epoch_body_def early_stopping_def state_dict_def
  dict_copy_def new_dict_def load_state_dict_def load_entry_def tensor_copy_def
  read_params_def write_params_def counting_passes_def one_weight_def empty_heap_def
  read_state_dict_def run_summary_def

lemma fold_write_frame:
  "dicts (fold (\<lambda>npv h'. h'\<lparr>tensors := (tensors h')(snd (fst npv) := snd npv)\<rparr>) xs h) = dicts h
   \<and> next_dict (fold (\<lambda>npv h'. h'\<lparr>tensors := (tensors h')(snd (fst npv) := snd npv)\<rparr>) xs h)
       = next_dict h"
  by (induction xs arbitrary: h) auto

lemma write_params_frame:
  "dicts (write_params model vs h) = dicts h"
  "next_dict (write_params model vs h) = next_dict h"
  by (simp_all add: write_params_def fold_write_frame)

lemma early_stopping_snapshot_ok:
  assumes "early_stopping model patience val_loss st = Inr (stop, st')" and "snapshot_ok model st"
  shows "snapshot_ok model st'"
  using assms
  by (auto simp: early_stopping_def snapshot_ok_def state_dict_def dict_copy_def new_dict_def
      Let_def split: if_splits option.splits)

lemma epoch_body_snapshot_ok:
  assumes "epoch_body env model patience epoch st = Inr (stop, st')" and "snapshot_ok model st"
  shows "snapshot_ok model st'"
proof -
  from assms(1) obtain o1 vs val_loss where
    e: "early_stopping model patience val_loss
          (st\<lparr>heap := write_params model vs (heap st), optim := scheduler_step env val_loss o1,
               history := history st @ [val_loss]\<rparr>) = Inr (stop, st')"
    by (auto simp: epoch_body_def Let_def split: sum.splits prod.splits)
  have "snapshot_ok model (st\<lparr>heap := write_params model vs (heap st),
          optim := scheduler_step env val_loss o1, history := history st @ [val_loss]\<rparr>)"
    using assms(2) by (simp add: snapshot_ok_def write_params_frame split: option.splits)
  from early_stopping_snapshot_ok[OF e this] show ?thesis .
qed

lemma epoch_loop_snapshot_ok:
  assumes "epoch_loop env model patience idx st = Inr st'" and "snapshot_ok model st"
  shows "snapshot_ok model st'"
  using assms
proof (induction idx arbitrary: st)
  case Nil
  then show ?case by simp
next
  case (Cons epoch rest)
  from Cons.prems(1) obtain stop st1 where
    b: "epoch_body env model patience epoch st = Inr (stop, st1)"
    and r: "if stop then st' = st1 else epoch_loop env model patience rest st1 = Inr st'"
    by (auto split: sum.splits if_splits)
  from epoch_body_snapshot_ok[OF b Cons.prems(2)] have ok: "snapshot_ok model st1" .
  show ?case
  proof (cases stop)
    case True
    with r ok show ?thesis by simp
  next
    case False
    with r have "epoch_loop env model patience rest st1 = Inr st'" by simp
    from Cons.IH[OF this ok] show ?thesis .
  qed
qed

lemma load_entries_noop:
  assumes "distinct (map fst model)" and "set xs \<subseteq> set model"
  shows "fold (load_entry model) xs h = h"
  using assms(2)
proof (induction xs arbitrary: h)
  case Nil
  then show ?case by simp
next
  case (Cons np rest)
  then have "(fst np, snd np) \<in> set model" by simp
  with assms(1) have "map_of model (fst np) = Some (snd np)" by simp
  then have "load_entry model np h = h"
    by (simp add: load_entry_def tensor_copy_def)
  with Cons show ?case by simp
qed

lemma load_state_dict_noop:
  assumes "distinct (map fst model)" and "dicts h d = Some model"
  shows "load_state_dict model d h = Inr h"
  using assms by (simp add: load_state_dict_def load_entries_noop)

text \<open>
  The restore step changes nothing: the dictionary kept in \<open>best_model_state\<close> holds the
  parameters' own tensors, so \<open>load_state_dict\<close> copies every parameter onto itself. What
  \<open>train_model\<close> leaves in the model is what the last epoch that ran left there.
\<close>

lemma restore_changes_nothing:
  assumes "distinct (map fst model)"
  shows "train_model env model epochs patience opt0 h0 =
           epoch_loop env model patience [0..<epochs]
             (initial_train_state opt0 h0)"
proof (cases "epoch_loop env model patience [0..<epochs]
             (initial_train_state opt0 h0)")
  case (Inl e)
  then show ?thesis by (simp add: train_model_def)
next
  case (Inr st)
  have "snapshot_ok model (initial_train_state opt0 h0)"
    by (simp add: snapshot_ok_def initial_train_state_def)
  from epoch_loop_snapshot_ok[OF Inr this] have ok: "snapshot_ok model st" .
  have "restore_best model st = Inr st"
  proof (cases "best_model_state st")
    case None
    then show ?thesis by (simp add: restore_best_def)
  next
    case (Some d)
    with ok have "dicts (heap st) d = Some model" by (simp add: snapshot_ok_def)
    from load_state_dict_noop[OF assms this] Some show ?thesis
      by (simp add: restore_best_def)
  qed
  with Inr show ?thesis by (simp add: train_model_def)
qed

lemma counting_epoch_improves:
  fixes st :: "(int, nat) train_state"
  assumes "optim st < length ls" and "float_less (ls ! optim st) (best_val_loss st)"
  shows "\<exists>st'. epoch_body (counting_passes ls) model patience epoch st = Inr (False, st')
           \<and> optim st' = Suc (optim st) \<and> history st' = history st @ [ls ! optim st]
           \<and> best_val_loss st' = ls ! optim st \<and> patience_counter st' = 0
           \<and> best_model_state st' = Some (Suc (next_dict (heap st)))
           \<and> next_dict (heap st') = Suc (Suc (next_dict (heap st)))"
  using assms
  by (simp add: epoch_body_def counting_passes_def Let_def early_stopping_def state_dict_def
      dict_copy_def new_dict_def write_params_frame)

lemma counting_epoch_stalls:
  fixes st :: "(int, nat) train_state"
  assumes "optim st < length ls" and "\<not> float_less (ls ! optim st) (best_val_loss st)"
  shows "\<exists>st'. epoch_body (counting_passes ls) model patience epoch st
                  = Inr (patience \<le> int (patience_counter st) + 1, st')
           \<and> optim st' = Suc (optim st) \<and> history st' = history st @ [ls ! optim st]
           \<and> best_val_loss st' = best_val_loss st
           \<and> patience_counter st' = Suc (patience_counter st)
           \<and> best_model_state st' = best_model_state st
           \<and> next_dict (heap st') = next_dict (heap st)"
  using assms
  by (simp add: epoch_body_def counting_passes_def Let_def early_stopping_def write_params_frame)

lemma improving_run:
  fixes st :: "(int, nat) train_state"
  assumes "length es = n" and "0 < n" and "optim st + n \<le> length ls"
    and "float_less (ls ! optim st) (best_val_loss st)"
    and "\<forall>i. Suc i < n \<longrightarrow> float_less (ls ! (optim st + Suc i)) (ls ! (optim st + i))"
  shows "\<exists>st'. epoch_loop (counting_passes ls) model patience (es @ rest) st
                  = epoch_loop (counting_passes ls) model patience rest st'
           \<and> optim st' = optim st + n
           \<and> history st' = history st @ take n (drop (optim st) ls)
           \<and> best_val_loss st' = ls ! (optim st + n - 1) \<and> patience_counter st' = 0
           \<and> best_model_state st' = Some (next_dict (heap st) + 2 * n - 1)
           \<and> next_dict (heap st') = next_dict (heap st) + 2 * n"
  using assms
proof (induction es arbitrary: st n)
  case Nil
  then show ?case by simp
next
  case (Cons e es)
  have k: "optim st < length ls" using Cons.prems by simp
  from counting_epoch_improves[OF k Cons.prems(4), of model patience e] obtain st1 where
    b: "epoch_body (counting_passes ls) model patience e st = Inr (False, st1)"
    and p: "optim st1 = Suc (optim st)" "history st1 = history st @ [ls ! optim st]"
      "best_val_loss st1 = ls ! optim st" "patience_counter st1 = 0"
      "best_model_state st1 = Some (Suc (next_dict (heap st)))"
      "next_dict (heap st1) = Suc (Suc (next_dict (heap st)))"
    by blast
  have step: "epoch_loop (counting_passes ls) model patience ((e # es) @ rest) st
                = epoch_loop (counting_passes ls) model patience (es @ rest) st1"
    using b by simp
  show ?case
  proof (cases es)
    case Nil
    with Cons.prems(1) have n: "n = 1" by simp
    have "take 1 (drop (optim st) ls) = [ls ! optim st]"
      using k by (simp add: take_Suc_conv_app_nth Cons_nth_drop_Suc[symmetric])
    with step p Nil n show ?thesis by auto
  next
    case (Cons e' es')
    with Cons.prems(1) obtain m where m: "n = Suc m" "length es = m" "0 < m" by auto
    have imp: "float_less (ls ! optim st1) (best_val_loss st1)"
      using Cons.prems(5)[rule_format, of 0] m p by simp
    have rest: "\<forall>i. Suc i < m \<longrightarrow> float_less (ls ! (optim st1 + Suc i)) (ls ! (optim st1 + i))"
      using Cons.prems(5) m p by (auto dest: spec[where x = "Suc i" for i])
    have bound: "optim st1 + m \<le> length ls" using Cons.prems(3) m p by simp
    from Cons.IH[OF m(2) m(3) bound imp rest] obtain st' where
      r: "epoch_loop (counting_passes ls) model patience (es @ rest) st1
            = epoch_loop (counting_passes ls) model patience rest st'"
      and q: "optim st' = optim st1 + m"
        "history st' = history st1 @ take m (drop (optim st1) ls)"
        "best_val_loss st' = ls ! (optim st1 + m - 1)" "patience_counter st' = 0"
        "best_model_state st' = Some (next_dict (heap st1) + 2 * m - 1)"
        "next_dict (heap st') = next_dict (heap st1) + 2 * m"
      by blast
    have "take n (drop (optim st) ls) = ls ! optim st # take m (drop (Suc (optim st)) ls)"
      using k m by (simp add: Cons_nth_drop_Suc[symmetric])
    with step r q p m show ?thesis by auto
  qed
qed

lemma stalling_run:
  fixes st :: "(int, nat) train_state"
  assumes "length es = m" and "0 < m" and "optim st + m \<le> length ls"
    and "int (patience_counter st) + int m = patience"
    and "\<forall>j<m. \<not> float_less (ls ! (optim st + j)) (best_val_loss st)"
  shows "\<exists>st'. epoch_loop (counting_passes ls) model patience (es @ rest) st = Inr st'
           \<and> optim st' = optim st + m
           \<and> history st' = history st @ take m (drop (optim st) ls)
           \<and> best_val_loss st' = best_val_loss st
           \<and> patience_counter st' = patience_counter st + m
           \<and> best_model_state st' = best_model_state st"
  using assms
proof (induction es arbitrary: st m)
  case Nil
  then show ?case by simp
next
  case (Cons e es)
  have k: "optim st < length ls" using Cons.prems by simp
  have ns: "\<not> float_less (ls ! optim st) (best_val_loss st)"
    using Cons.prems(5)[rule_format, of 0] Cons.prems(2) by simp
  from counting_epoch_stalls[OF k ns, of model patience e] obtain st1 where
    b: "epoch_body (counting_passes ls) model patience e st
          = Inr (patience \<le> int (patience_counter st) + 1, st1)"
    and p: "optim st1 = Suc (optim st)" "history st1 = history st @ [ls ! optim st]"
      "best_val_loss st1 = best_val_loss st" "patience_counter st1 = Suc (patience_counter st)"
      "best_model_state st1 = best_model_state st"
    by blast
  show ?case
  proof (cases es)
    case Nil
    with Cons.prems(1) have m: "m = 1" by simp
    with Cons.prems(4) have stop: "patience \<le> int (patience_counter st) + 1" by simp
    have "take 1 (drop (optim st) ls) = [ls ! optim st]"
      using k by (simp add: take_Suc_conv_app_nth Cons_nth_drop_Suc[symmetric])
    with b stop p m show ?thesis by auto
  next
    case (Cons e' es')
    with Cons.prems(1) obtain m' where m: "m = Suc m'" "length es = m'" "0 < m'" by auto
    with Cons.prems(4) have go: "\<not> patience \<le> int (patience_counter st) + 1" by simp
    have step: "epoch_loop (counting_passes ls) model patience ((e # es) @ rest) st
                = epoch_loop (counting_passes ls) model patience (es @ rest) st1"
      using b go by simp
    have bound: "optim st1 + m' \<le> length ls" using Cons.prems(3) m p by simp
    have pat: "int (patience_counter st1) + int m' = patience" using Cons.prems(4) m p by simp
    have st: "\<forall>j<m'. \<not> float_less (ls ! (optim st1 + j)) (best_val_loss st1)"
      using Cons.prems(5) m p by (auto dest: spec[where x = "Suc j" for j])
    from Cons.IH[OF m(2) m(3) bound pat st] obtain st' where
      r: "epoch_loop (counting_passes ls) model patience (es @ rest) st1 = Inr st'"
      and q: "optim st' = optim st1 + m'"
        "history st' = history st1 @ take m' (drop (optim st1) ls)"
        "best_val_loss st' = best_val_loss st1"
        "patience_counter st' = patience_counter st1 + m'"
        "best_model_state st' = best_model_state st1"
      by blast
    have "take m (drop (optim st) ls) = ls ! optim st # take m' (drop (Suc (optim st)) ls)"
      using k m by (simp add: Cons_nth_drop_Suc[symmetric])
    with step r q p m show ?thesis by auto
  qed
qed

text \<open>
  At every moment the dictionary in \<open>best_model_state\<close> reads the parameters as they are
  now, not as they were when it was taken.
\<close>

lemma snapshot_reads_current_parameters:
  assumes "snapshot_ok model st" and "best_model_state st = Some d"
  shows "read_state_dict (heap st) (best_model_state st)
           = Some (zip (map fst model) (read_params model (heap st)))"
proof -
  from assms have "dicts (heap st) d = Some model" by (simp add: snapshot_ok_def)
  moreover have "map (\<lambda>np. (fst np, tensors (heap st) (snd np))) model
                   = zip (map fst model) (map (\<lambda>np. tensors (heap st) (snd np)) model)"
    by (induction model) auto
  ultimately show ?thesis using assms(2) by (simp add: read_state_dict_def read_params_def)
qed

text \<open>
  The control flow on a plateau, for every loss sequence that starts below infinity,
  decreases strictly for \<open>n\<close> epochs and then does not improve for \<open>p\<close> epochs, with patience
  \<open>p\<close> and a budget of at least \<open>n + p\<close> epochs: the run stops after exactly \<open>n + p\<close> epochs,
  \<open>best_val_loss\<close> is the loss of epoch \<open>n\<close>, and \<open>best_model_state\<close> is the dictionary
  created at epoch \<open>n\<close> (the \<open>2n\<close>-th dictionary allocated), which reads the parameters of
  epoch \<open>n + p\<close>.
\<close>

lemma early_stop_after_plateau:
  fixes h0 :: "int pyheap"
  assumes "0 < n" and "0 < p" and "n + p \<le> epochs" and "n + p \<le> length ls"
    and "float_less (ls ! 0) PosInf"
    and "\<forall>i. Suc i < n \<longrightarrow> float_less (ls ! Suc i) (ls ! i)"
    and "\<forall>j<p. \<not> float_less (ls ! (n + j)) (ls ! (n - 1))"
    and "distinct (map fst model)"
  shows "\<exists>st. train_model (counting_passes ls) model epochs (int p) 0 h0 = Inr st
           \<and> history st = take (n + p) ls
           \<and> best_val_loss st = ls ! (n - 1)
           \<and> patience_counter st = p
           \<and> best_model_state st = Some (next_dict h0 + 2 * n - 1)
           \<and> read_state_dict (heap st) (best_model_state st)
               = Some (zip (map fst model) (read_params model (heap st)))"
proof -
  let ?s0 = "initial_train_state (0::nat) h0"
  define r where "r = epochs - (n + p)"
  have e: "epochs = n + p + r" using assms(3) by (simp add: r_def)
  have "[0..<0 + n + (p + r)] = [0..<0 + n] @ [0 + n..<0 + n + (p + r)]"
    by (rule upt_add_eq_append) simp
  moreover have "[n..<n + p + r] = [n..<n + p] @ [n + p..<n + p + r]"
    by (rule upt_add_eq_append) simp
  ultimately have split: "[0..<epochs] = [0..<n] @ ([n..<n + p] @ [n + p..<epochs])"
    by (simp add: e add.assoc)
  have s0: "optim ?s0 = 0" "best_val_loss ?s0 = PosInf" "history ?s0 = []"
    "patience_counter ?s0 = 0" "next_dict (heap ?s0) = next_dict h0"
    by (simp_all add: initial_train_state_def)
  have "\<exists>st'. epoch_loop (counting_passes ls) model (int p) ([0..<n] @ ([n..<n + p] @ [n + p..<epochs])) ?s0
                  = epoch_loop (counting_passes ls) model (int p) ([n..<n + p] @ [n + p..<epochs]) st'
           \<and> optim st' = optim ?s0 + n
           \<and> history st' = history ?s0 @ take n (drop (optim ?s0) ls)
           \<and> best_val_loss st' = ls ! (optim ?s0 + n - 1) \<and> patience_counter st' = 0
           \<and> best_model_state st' = Some (next_dict (heap ?s0) + 2 * n - 1)
           \<and> next_dict (heap st') = next_dict (heap ?s0) + 2 * n"
    by (rule improving_run) (use assms in \<open>simp_all add: s0\<close>)
  then obtain st1 where
    l1: "epoch_loop (counting_passes ls) model (int p) [0..<epochs] ?s0
           = epoch_loop (counting_passes ls) model (int p) ([n..<n + p] @ [n + p..<epochs]) st1"
    and p1: "optim st1 = n" "history st1 = take n ls" "best_val_loss st1 = ls ! (n - 1)"
      "patience_counter st1 = 0" "best_model_state st1 = Some (next_dict h0 + 2 * n - 1)"
    unfolding split[symmetric] s0 by auto
  have "\<exists>st'. epoch_loop (counting_passes ls) model (int p) ([n..<n + p] @ [n + p..<epochs]) st1 = Inr st'
           \<and> optim st' = optim st1 + p
           \<and> history st' = history st1 @ take p (drop (optim st1) ls)
           \<and> best_val_loss st' = best_val_loss st1
           \<and> patience_counter st' = patience_counter st1 + p
           \<and> best_model_state st' = best_model_state st1"
    by (rule stalling_run) (use assms p1 in simp_all)
  then obtain st where
    l2: "epoch_loop (counting_passes ls) model (int p) ([n..<n + p] @ [n + p..<epochs]) st1 = Inr st"
    and p2: "history st = take n ls @ take p (drop n ls)" "best_val_loss st = ls ! (n - 1)"
      "patience_counter st = p" "best_model_state st = Some (next_dict h0 + 2 * n - 1)"
    unfolding p1 by auto
  have run: "train_model (counting_passes ls) model epochs (int p) 0 h0 = Inr st"
    unfolding restore_changes_nothing[OF assms(8)] l1 l2 ..
  have "snapshot_ok model ?s0" by (simp add: snapshot_ok_def initial_train_state_def)
  moreover have "epoch_loop (counting_passes ls) model (int p) [0..<epochs] ?s0 = Inr st"
    using l1 l2 by simp
  ultimately have "snapshot_ok model st"
    by (rule epoch_loop_snapshot_ok[rotated])
  from snapshot_reads_current_parameters[OF this p2(4)]
  have snap: "read_state_dict (heap st) (best_model_state st)
               = Some (zip (map fst model) (read_params model (heap st)))" .
  have "take n ls @ take p (drop n ls) = take (n + p) ls"
    by (simp add: take_add)
  with run p2 snap show ?thesis by simp
qed

subsection \<open>Evaluations\<close>

lemma upt_0_2: "[0..<2] = [0, 1]"
  by code_simp

lemma run_1:
  "run_summary one_weight (train_model (counting_passes [Finite 1, Finite 2]) one_weight 1 20 0 empty_heap)
     = Inr ([1], [Finite 1], Finite 1, Some [(''w'', 1)])"
  by (simp add: trainer_defs)

lemma run_2:
  "run_summary one_weight (train_model (counting_passes [Finite 1, Finite 2]) one_weight 2 20 0 empty_heap)
     = Inr ([2], [Finite 1, Finite 2], Finite 1, Some [(''w'', 2)])"
  by (simp add: trainer_defs upt_0_2)

lemma run_3:
  "run_summary one_weight
     (train_model (counting_passes [Finite 1, Finite 2, Finite 2, Finite 0]) one_weight 150 2 0 empty_heap)
     = Inr ([3], [Finite 1, Finite 2, Finite 2], Finite 1, Some [(''w'', 3)])"
  by (simp add: trainer_defs upt_conv_Cons)

lemma run_5:
  "run_summary one_weight
     (train_model (counting_passes [Finite 5, Finite 4, Finite 3, Finite 2, Finite 1, Finite 1, Finite 1])
        one_weight 5 2 0 empty_heap)
     = Inr ([5], [Finite 5, Finite 4, Finite 3, Finite 2, Finite 1], Finite 1,
            Some [(''w'', 5)])"
  by (simp add: trainer_defs upt_conv_Cons)

lemma run_7:
  "run_summary one_weight
     (train_model (counting_passes [Finite 5, Finite 4, Finite 3, Finite 2, Finite 1, Finite 1, Finite 1])
        one_weight 150 2 0 empty_heap)
     = Inr ([7], [Finite 5, Finite 4, Finite 3, Finite 2, Finite 1, Finite 1, Finite 1], Finite 1,
            Some [(''w'', 7)])"
  by (simp add: trainer_defs upt_conv_Cons)


subsection \<open>The claims about the controller\<close>

text \<open>
  C1. The claim is that the model ends with the parameters of the epoch with the smallest
  validation loss. The code does not: with losses 1, 2 the best epoch is the first, whose
  parameters are [1] (first run, one epoch), but after two epochs (budget exhausted) the
  model holds [2], and with losses 1, 2, 2 and patience 2 (early stop at epoch 3) it holds
  [3]: the parameters of the last epoch run, which are also what the dictionary in
  \<open>best_model_state\<close> reads at that point.
\<close>

theorem train_model_keeps_last_epoch_parameters:
  "run_summary one_weight
     (train_model (counting_passes [Finite 1, Finite 2]) one_weight 1 20 0 empty_heap)
     = Inr ([1], [Finite 1], Finite 1, Some [(''w'', 1)])
   \<and> run_summary one_weight
     (train_model (counting_passes [Finite 1, Finite 2]) one_weight 2 20 0 empty_heap)
     = Inr ([2], [Finite 1, Finite 2], Finite 1, Some [(''w'', 2)])
   \<and> run_summary one_weight
     (train_model (counting_passes [Finite 1, Finite 2, Finite 2, Finite 0]) one_weight 150 2 0
        empty_heap)
     = Inr ([3], [Finite 1, Finite 2, Finite 2], Finite 1, Some [(''w'', 3)])"
  by (intro conjI run_1 run_2 run_3)

text \<open>
  C2. Losses that decrease strictly for 5 epochs and then stay flat, patience 2, budget
  150: the loop stops after epoch 7 = 5 + patience and \<open>best_val_loss\<close> is the loss of
  epoch 5, as claimed. But the dictionary in \<open>best_model_state\<close>, which read [5] at the end
  of epoch 5 (first run, stopped there by the budget), reads [7] when the loop stops: it is
  not the snapshot of epoch 5.
\<close>

theorem early_stop_snapshot_is_overwritten:
  "run_summary one_weight
     (train_model (counting_passes [Finite 5, Finite 4, Finite 3, Finite 2, Finite 1, Finite 1, Finite 1])
        one_weight 5 2 0 empty_heap)
     = Inr ([5], [Finite 5, Finite 4, Finite 3, Finite 2, Finite 1], Finite 1, Some [(''w'', 5)])
   \<and> run_summary one_weight
     (train_model (counting_passes [Finite 5, Finite 4, Finite 3, Finite 2, Finite 1, Finite 1, Finite 1])
        one_weight 150 2 0 empty_heap)
     = Inr ([7], [Finite 5, Finite 4, Finite 3, Finite 2, Finite 1, Finite 1, Finite 1], Finite 1,
            Some [(''w'', 7)])"
  by (intro conjI run_5 run_7)




end
